theory Spec2Isabelle
  imports Complex_Main
begin

section \<open>JavaScript values\<close>

text \<open>
  A JavaScript string is a sequence of UTF-16 code units. A code unit is modelled as a
  natural number (below 65536 in the runtime), a string as the list of its code units.
  \<open>lit\<close> turns a literal of the source text into such a list.
\<close>

type_synonym jsstring = "nat list"

definition lit :: "string \<Rightarrow> jsstring" where
  "lit s = map of_char s"

text \<open>
  A JavaScript number is a double. The program only compares, divides and rounds numbers,
  so a finite double is modelled as the real it denotes and \<open>NaN\<close> is kept apart, because
  every comparison with \<open>NaN\<close> is false. The infinities are not modelled: the only
  divisor of the program is the constant \<open>TROY_OUNCE_TO_GRAM\<close>, and a division by zero,
  which the program never makes, is given \<open>NaN\<close>. \<open>Math.round\<close> rounds halves up.
\<close>

datatype number = NaN | Num real

fun js_gt :: "number \<Rightarrow> number \<Rightarrow> bool" where
  "js_gt (Num x) (Num y) = (x > y)"
| "js_gt _ _ = False"

fun js_ge :: "number \<Rightarrow> number \<Rightarrow> bool" where
  "js_ge (Num x) (Num y) = (x \<ge> y)"
| "js_ge _ _ = False"

fun js_strict_eq :: "number \<Rightarrow> number \<Rightarrow> bool" where
  "js_strict_eq (Num x) (Num y) = (x = y)"
| "js_strict_eq _ _ = False"

fun js_div :: "number \<Rightarrow> number \<Rightarrow> number" where
  "js_div (Num x) (Num y) = (if y = 0 then NaN else Num (x / y))"
| "js_div _ _ = NaN"

fun Math_round :: "number \<Rightarrow> number" where
  "Math_round (Num x) = Num (of_int \<lfloor>x + 1 / 2\<rfloor>)"
| "Math_round NaN = NaN"

text \<open>A call of the runtime or of a library either throws or returns a value.\<close>

datatype 'a outcome = Throws | Returns 'a

text \<open>
  The formatting functions of the host (\<open>toLocaleString\<close>, \<open>toLocaleTimeString\<close>,
  \<open>toString\<close>) depend on its locale; the program is modelled for any choice of them.
  A \<open>Date\<close> is the number of milliseconds it holds.
\<close>

record runtime =
  toLocaleString :: "number \<Rightarrow> jsstring"
  toLocaleString_idID :: "number \<Rightarrow> jsstring"
  toLocaleTimeString_hm :: "int \<Rightarrow> jsstring"
  Date_toLocaleString :: "int \<Rightarrow> jsstring"
  toString :: "int \<Rightarrow> jsstring"

text \<open>The white space that \<open>String.prototype.trim\<close> removes, as code units.\<close>

definition js_whitespace :: "nat \<Rightarrow> bool" where
  "js_whitespace c \<longleftrightarrow>
     c \<in> set [9, 10, 11, 12, 13, 32, 160, 5760, 8232, 8233, 8239, 8287, 12288, 65279]
     \<or> (8192 \<le> c \<and> c \<le> 8202)"

definition js_trim :: "jsstring \<Rightarrow> jsstring" where
  "js_trim s = rev (dropWhile js_whitespace (rev (dropWhile js_whitespace s)))"


section \<open>types.ts\<close>

record PricePoint =
  time :: jsstring
  price :: number

record TelegramConfig =
  botToken :: jsstring
  chatId :: jsstring
  enabled :: bool

datatype sentiment = Bullish | Bearish | Neutral

record MarketInsight =
  sentiment :: sentiment
  analysis :: jsstring
  recommendation :: jsstring

datatype log_status = success | failed

record NotificationLog =
  id_log :: jsstring
  timestamp_log :: jsstring
  message :: jsstring
  status :: log_status


section \<open>services/geminiService.ts\<close>

text \<open>
  What the Gemini client library does in one call of \<open>getMarketInsight\<close>: whether its
  constructor throws, what \<open>generateContent\<close> answers to a prompt (it throws, or it returns
  a response whose \<open>text\<close> is a string or undefined), and what \<open>JSON.parse\<close> makes of a
  text (it throws, or it returns a value, which the source types as a MarketInsight).
\<close>

record gemini =
  new_GoogleGenAI :: "unit outcome"
  generateContent :: "jsstring \<Rightarrow> jsstring option outcome"
  JSON_parse_insight :: "jsstring \<Rightarrow> MarketInsight outcome"

definition prompt :: "runtime \<Rightarrow> number \<Rightarrow> jsstring" where
  "prompt rt currentPrice =
     lit ''Analyze current gold price of IDR '' @ toLocaleString_idID rt currentPrice
     @ lit '' per gram. \<newline>  Provide a market sentiment (Bullish, Bearish, or Neutral), a short analysis of factors that might influence gold prices today, \<newline>  and a simple recommendation for an investor. Return the response in JSON format.''"

text \<open>\<open>response.text?.trim() || '{}'\<close>: an undefined or empty text gives \<open>{}\<close>.\<close>

definition jsonStr :: "jsstring option \<Rightarrow> jsstring" where
  "jsonStr text =
     (case text of
        None \<Rightarrow> lit ''{}''
      | Some t \<Rightarrow> if js_trim t = [] then lit ''{}'' else js_trim t)"

definition getMarketInsight :: "runtime \<Rightarrow> gemini \<Rightarrow> number \<Rightarrow> MarketInsight outcome" where
  "getMarketInsight rt ai currentPrice =
     (case new_GoogleGenAI ai of
        Throws \<Rightarrow> Throws
      | Returns _ \<Rightarrow>
          (case generateContent ai (prompt rt currentPrice) of
             Throws \<Rightarrow>
               Returns \<lparr>sentiment = Neutral,
                 analysis = lit ''Could not fetch AI analysis at this time.'',
                 recommendation = lit ''Monitor global economic indicators.''\<rparr>
           | Returns text \<Rightarrow>
               (case JSON_parse_insight ai (jsonStr text) of
                  Throws \<Rightarrow>
                    Returns \<lparr>sentiment = Neutral,
                      analysis = lit ''Could not fetch AI analysis at this time.'',
                      recommendation = lit ''Monitor global economic indicators.''\<rparr>
                | Returns v \<Rightarrow> Returns v)))"


section \<open>services/goldService.ts\<close>

record GoldData =
  pricePerGram :: number
  timestamp :: int
  source :: jsstring

definition TROY_OUNCE_TO_GRAM :: real where
  "TROY_OUNCE_TO_GRAM = 31.1034768"

text \<open>
  What the network answers to one \<open>fetch\<close>: the call throws, or it returns a response with
  its \<open>ok\<close> flag. For the price feed the response also has a body: \<open>response.json()\<close>
  throws, or the parsed data has no member \<open>xau\<close> (reading \<open>data.xau.idr\<close> throws), or
  \<open>data.xau.idr\<close> is there, taken as the number the division converts it to.
\<close>

record response =
  ok :: bool

datatype xau_body = Json_throws | No_xau | Idr number

record gold_response = response +
  json :: xau_body

definition fetchLiveGoldPrice :: "gold_response outcome \<Rightarrow> int \<Rightarrow> GoldData outcome" where
  "fetchLiveGoldPrice fetched now =
     (case fetched of
        Throws \<Rightarrow> Throws
      | Returns r \<Rightarrow>
          if \<not> ok r then Throws
          else (case json r of
                  Json_throws \<Rightarrow> Throws
                | No_xau \<Rightarrow> Throws
                | Idr xauToIdr \<Rightarrow>
                    Returns \<lparr>pricePerGram = Math_round (js_div xauToIdr (Num TROY_OUNCE_TO_GRAM)),
                      timestamp = now,
                      source = lit ''Global Market (XAU/IDR)''\<rparr>))"


section \<open>services/telegramService.ts\<close>

text \<open>
  The message and the URL that \<open>sendTelegramAlert\<close> builds go to the network; its result
  is decided by the configuration and by the answer of the network alone.
\<close>

definition sendTelegramAlert ::
  "TelegramConfig \<Rightarrow> number \<Rightarrow> number \<Rightarrow> response outcome \<Rightarrow> bool" where
  "sendTelegramAlert config currentPrice threshold fetched =
     (if botToken config = [] \<or> chatId config = [] \<or> \<not> enabled config then False
      else (case fetched of Throws \<Rightarrow> False | Returns r \<Rightarrow> ok r))"


section \<open>JSON text of a TelegramConfig\<close>

text \<open>
  \<open>JSON.stringify\<close> and \<open>JSON.parse\<close> belong to the language, not to the program. They are
  modelled on the values the program stores: an object with the members \<open>botToken\<close> and
  \<open>chatId\<close> (strings) and \<open>enabled\<close> (a boolean), in this order, which is the order every
  configuration of the program has. \<open>QuoteJSONString\<close> follows ECMAScript: short escapes
  for backspace, tab, line feed, form feed, carriage return, the quote and the backslash,
  a Unicode escape (backslash, u, four lower-case hexadecimal digits) for the other code
  units below 32 and for a surrogate without its partner, and every other code unit as it is.
  \<open>JSON_parse\<close> accepts white space between the tokens and every escape of JSON inside a
  string; on any other text it answers \<open>Throws\<close>, which here stands for a SyntaxError as
  well as for a value that is not a TelegramConfig.
\<close>

definition hexDigit :: "nat \<Rightarrow> nat" where
  "hexDigit d = (if d < 10 then 48 + d else 87 + d)"

definition UnicodeEscape :: "nat \<Rightarrow> jsstring" where
  "UnicodeEscape c =
     [92, 117, hexDigit (c div 4096 mod 16), hexDigit (c div 256 mod 16),
      hexDigit (c div 16 mod 16), hexDigit (c mod 16)]"

definition leadingSurrogate :: "nat \<Rightarrow> bool" where
  "leadingSurrogate c \<longleftrightarrow> 55296 \<le> c \<and> c \<le> 56319"

definition trailingSurrogate :: "nat \<Rightarrow> bool" where
  "trailingSurrogate c \<longleftrightarrow> 56320 \<le> c \<and> c \<le> 57343"

definition quoteUnit :: "nat \<Rightarrow> jsstring" where
  "quoteUnit c =
     (if c = 8 then [92, 98]
      else if c = 9 then [92, 116]
      else if c = 10 then [92, 110]
      else if c = 12 then [92, 102]
      else if c = 13 then [92, 114]
      else if c = 34 then [92, 34]
      else if c = 92 then [92, 92]
      else if c < 32 \<or> leadingSurrogate c \<or> trailingSurrogate c then UnicodeEscape c
      else [c])"

fun quoteUnits :: "jsstring \<Rightarrow> jsstring" where
  "quoteUnits [] = []"
| "quoteUnits [c] = quoteUnit c"
| "quoteUnits (c # d # cs) =
     (if leadingSurrogate c \<and> trailingSurrogate d then c # d # quoteUnits cs
      else quoteUnit c @ quoteUnits (d # cs))"

definition QuoteJSONString :: "jsstring \<Rightarrow> jsstring" where
  "QuoteJSONString s = [34] @ quoteUnits s @ [34]"

definition JSON_stringify :: "TelegramConfig \<Rightarrow> jsstring" where
  "JSON_stringify c =
     lit ''{\"botToken\":'' @ QuoteJSONString (botToken c)
     @ lit '',\"chatId\":'' @ QuoteJSONString (chatId c)
     @ lit '',\"enabled\":'' @ (if enabled c then lit ''true'' else lit ''false'')
     @ lit ''}''"

definition hexValue :: "nat \<Rightarrow> nat option" where
  "hexValue h =
     (if 48 \<le> h \<and> h \<le> 57 then Some (h - 48)
      else if 97 \<le> h \<and> h \<le> 102 then Some (h - 87)
      else if 65 \<le> h \<and> h \<le> 70 then Some (h - 55)
      else None)"

definition unescape :: "nat \<Rightarrow> nat option" where
  "unescape e =
     (if e = 34 then Some 34
      else if e = 92 then Some 92
      else if e = 47 then Some 47
      else if e = 98 then Some 8
      else if e = 102 then Some 12
      else if e = 110 then Some 10
      else if e = 114 then Some 13
      else if e = 116 then Some 9
      else None)"

definition consUnit :: "nat \<Rightarrow> (jsstring \<times> jsstring) option \<Rightarrow> (jsstring \<times> jsstring) option" where
  "consUnit u r = map_option (\<lambda>(s, rest). (u # s, rest)) r"

fun parseChars :: "jsstring \<Rightarrow> (jsstring \<times> jsstring) option" where
  "parseChars [] = None"
| "parseChars (c # cs) =
     (if c = 34 then Some ([], cs)
      else if c = 92 then
        (case cs of
           [] \<Rightarrow> None
         | e # es \<Rightarrow>
             if e = 117 then
               (case es of
                  h1 # h2 # h3 # h4 # r \<Rightarrow>
                    (case (hexValue h1, hexValue h2, hexValue h3, hexValue h4) of
                       (Some a, Some b, Some c', Some d) \<Rightarrow>
                         consUnit (a * 4096 + b * 256 + c' * 16 + d) (parseChars r)
                     | _ \<Rightarrow> None)
                | _ \<Rightarrow> None)
             else (case unescape e of None \<Rightarrow> None | Some u \<Rightarrow> consUnit u (parseChars es)))
      else if c < 32 then None
      else consUnit c (parseChars cs))"

definition jsonWs :: "nat \<Rightarrow> bool" where
  "jsonWs c \<longleftrightarrow> c = 9 \<or> c = 10 \<or> c = 13 \<or> c = 32"

definition skipWs :: "jsstring \<Rightarrow> jsstring" where
  "skipWs s = dropWhile jsonWs s"

definition parseString :: "jsstring \<Rightarrow> (jsstring \<times> jsstring) option" where
  "parseString s = (case skipWs s of c # cs \<Rightarrow> if c = 34 then parseChars cs else None | [] \<Rightarrow> None)"

definition parseBool :: "jsstring \<Rightarrow> (bool \<times> jsstring) option" where
  "parseBool s =
     (case skipWs s of
        a # b # c # d # r \<Rightarrow>
          if [a, b, c, d] = lit ''true'' then Some (True, r)
          else (case r of e # r' \<Rightarrow> if [a, b, c, d, e] = lit ''false'' then Some (False, r') else None
                | [] \<Rightarrow> None)
      | _ \<Rightarrow> None)"

definition expect :: "nat \<Rightarrow> jsstring \<Rightarrow> jsstring option" where
  "expect t s = (case skipWs s of c # cs \<Rightarrow> if c = t then Some cs else None | [] \<Rightarrow> None)"

definition parseKey :: "jsstring \<Rightarrow> jsstring \<Rightarrow> jsstring option" where
  "parseKey k s =
     (case parseString s of
        None \<Rightarrow> None
      | Some (k', r) \<Rightarrow> if k' = k then expect 58 r else None)"

definition JSON_parse :: "jsstring \<Rightarrow> TelegramConfig outcome" where
  "JSON_parse s =
     (case Option.bind (expect 123 s) (parseKey (lit ''botToken'')) of None \<Rightarrow> Throws
      | Some s1 \<Rightarrow>
     (case parseString s1 of None \<Rightarrow> Throws
      | Some (tok, s2) \<Rightarrow>
     (case Option.bind (expect 44 s2) (parseKey (lit ''chatId'')) of None \<Rightarrow> Throws
      | Some s3 \<Rightarrow>
     (case parseString s3 of None \<Rightarrow> Throws
      | Some (chat, s4) \<Rightarrow>
     (case Option.bind (expect 44 s4) (parseKey (lit ''enabled'')) of None \<Rightarrow> Throws
      | Some s5 \<Rightarrow>
     (case parseBool s5 of None \<Rightarrow> Throws
      | Some (en, s6) \<Rightarrow>
     (case expect 125 s6 of None \<Rightarrow> Throws
      | Some s7 \<Rightarrow>
          if skipWs s7 = [] then Returns \<lparr>botToken = tok, chatId = chat, enabled = en\<rparr>
          else Throws)))))))"


section \<open>App.tsx\<close>

definition INITIAL_THRESHOLD :: number where
  "INITIAL_THRESHOLD = Num 2900000"

datatype tab = Dashboard | Settings | Logs

text \<open>
  A call of \<open>checkThreshold\<close> that waits for \<open>sendTelegramAlert\<close>: the values its closure
  holds, namely \<open>now\<close> and the \<open>currentPrice\<close>, \<open>threshold\<close> and \<open>tgConfig\<close> of the
  render that started it.
\<close>

record alert_call =
  now_c :: int
  currentPrice_c :: number
  threshold_c :: number
  tgConfig_c :: TelegramConfig

text \<open>
  The state of the component: its \<open>useState\<close> cells and its ref, then what the runtime
  holds for it: the local storage, the interval timers that are set (identifier and
  delay), the variable \<open>interval\<close> of the last run of the monitoring effect, and the
  asynchronous calls that have not settled yet (the number of \<open>fetchPrice\<close> calls waiting
  for the feed, the \<open>checkThreshold\<close> calls waiting for Telegram, and the prices of the
  \<open>handleFetchInsight\<close> calls waiting for the model).
\<close>

record App =
  currentPrice :: number
  lastUpdated :: "int option"
  dataSource :: jsstring
  threshold :: number
  priceHistory :: "PricePoint list"
  isMonitoring :: bool
  insight :: "MarketInsight option"
  loadingInsight :: bool
  loadingPrice :: bool
  logs :: "NotificationLog list"
  activeTab :: tab
  tgConfig :: TelegramConfig
  lastAlertTimeRef :: int
  localStorage :: "jsstring \<rightharpoonup> jsstring"
  timers :: "(nat \<times> int) list"
  nextTimer :: nat
  interval :: "nat option"
  fetching :: nat
  sending :: "alert_call list"
  asking :: "number list"

definition initialTgConfig :: "(jsstring \<rightharpoonup> jsstring) \<Rightarrow> TelegramConfig outcome" where
  "initialTgConfig storage =
     (case storage (lit ''gold_tg_config'') of
        None \<Rightarrow> Returns \<lparr>botToken = [], chatId = [], enabled = False\<rparr>
      | Some saved \<Rightarrow>
          if saved = [] then Returns \<lparr>botToken = [], chatId = [], enabled = False\<rparr>
          else JSON_parse saved)"

definition App_initial :: "TelegramConfig \<Rightarrow> (jsstring \<rightharpoonup> jsstring) \<Rightarrow> App" where
  "App_initial config storage =
     \<lparr>currentPrice = Num 0, lastUpdated = None, dataSource = lit ''Initializing...'',
       threshold = INITIAL_THRESHOLD, priceHistory = [], isMonitoring = False,
       insight = None, loadingInsight = False, loadingPrice = False, logs = [],
       activeTab = Dashboard, tgConfig = config, lastAlertTimeRef = 0,
       localStorage = storage, timers = [], nextTimer = 1, interval = None,
       fetching = 0, sending = [], asking = []\<rparr>"

text \<open>The persistence effect.\<close>

definition persistEffect :: "App \<Rightarrow> App" where
  "persistEffect s =
     s\<lparr>localStorage := (localStorage s)(lit ''gold_tg_config'' \<mapsto> JSON_stringify (tgConfig s))\<rparr>"

text \<open>
  \<open>fetchPrice\<close> up to its \<open>await\<close>, and its continuation once \<open>fetchLiveGoldPrice\<close> has
  settled. \<open>slice_last n\<close> is \<open>slice(-n)\<close>.
\<close>

definition fetchPrice :: "App \<Rightarrow> App" where
  "fetchPrice s = s\<lparr>loadingPrice := True, fetching := Suc (fetching s)\<rparr>"

definition slice_last :: "nat \<Rightarrow> 'a list \<Rightarrow> 'a list" where
  "slice_last n xs = drop (length xs - n) xs"

definition newPoint :: "runtime \<Rightarrow> GoldData \<Rightarrow> PricePoint" where
  "newPoint rt data =
     \<lparr>time = toLocaleTimeString_hm rt (timestamp data), price = pricePerGram data\<rparr>"

definition fetchPrice_resume :: "runtime \<Rightarrow> GoldData outcome \<Rightarrow> App \<Rightarrow> App" where
  "fetchPrice_resume rt settled s =
     (case settled of
        Returns data \<Rightarrow>
          s\<lparr>currentPrice := pricePerGram data,
            lastUpdated := Some (timestamp data),
            dataSource := source data,
            priceHistory := slice_last 30 (priceHistory s @ [newPoint rt data]),
            loadingPrice := False,
            fetching := fetching s - 1\<rparr>
      | Throws \<Rightarrow> s\<lparr>loadingPrice := False, fetching := fetching s - 1\<rparr>)"

text \<open>
  The monitoring effect: the cleanup of its previous run clears the timer that run had
  set, then the effect runs again.
\<close>

definition clearInterval :: "nat option \<Rightarrow> App \<Rightarrow> App" where
  "clearInterval i s =
     (case i of None \<Rightarrow> s | Some n \<Rightarrow> s\<lparr>timers := filter (\<lambda>t. fst t \<noteq> n) (timers s)\<rparr>)"

definition monitoringEffect :: "App \<Rightarrow> App" where
  "monitoringEffect s =
     (let s1 = clearInterval (interval s) s in
      if isMonitoring s1 then
        (let s2 = fetchPrice s1 in
         s2\<lparr>timers := timers s2 @ [(nextTimer s2, 60000)],
           interval := Some (nextTimer s2),
           nextTimer := Suc (nextTimer s2)\<rparr>)
      else s1\<lparr>interval := None\<rparr>)"

text \<open>
  \<open>checkThreshold\<close> up to its \<open>await\<close>, and its continuation once \<open>sendTelegramAlert\<close> has
  settled, at the time \<open>later\<close>.
\<close>

definition checkThreshold :: "int \<Rightarrow> App \<Rightarrow> App" where
  "checkThreshold now s =
     (if isMonitoring s \<and> js_gt (currentPrice s) (Num 0)
         \<and> js_ge (currentPrice s) (threshold s) then
        (if now - lastAlertTimeRef s > 600000 then
           s\<lparr>sending := sending s @
               [\<lparr>now_c = now, currentPrice_c = currentPrice s, threshold_c = threshold s,
                 tgConfig_c = tgConfig s\<rparr>]\<rparr>
         else s)
      else s)"

definition logEntry :: "runtime \<Rightarrow> int \<Rightarrow> alert_call \<Rightarrow> bool \<Rightarrow> NotificationLog" where
  "logEntry rt later call sent =
     \<lparr>id_log = toString rt later,
       timestamp_log = Date_toLocaleString rt later,
       message = lit ''Price threshold IDR '' @ toLocaleString rt (threshold_c call)
         @ lit '' triggered at IDR '' @ toLocaleString rt (currentPrice_c call),
       status = (if sent then success else failed)\<rparr>"

definition checkThreshold_resume ::
  "runtime \<Rightarrow> int \<Rightarrow> alert_call \<Rightarrow> response outcome \<Rightarrow> App \<Rightarrow> App" where
  "checkThreshold_resume rt later call fetched s =
     (let sent = sendTelegramAlert (tgConfig_c call) (currentPrice_c call) (threshold_c call) fetched
      in s\<lparr>logs := take 50 (logEntry rt later call sent # logs s),
           lastAlertTimeRef := (if sent then now_c call else lastAlertTimeRef s)\<rparr>)"

text \<open>\<open>handleFetchInsight\<close> up to its \<open>await\<close>, and its continuation.\<close>

definition handleFetchInsight :: "App \<Rightarrow> App" where
  "handleFetchInsight s =
     (if js_strict_eq (currentPrice s) (Num 0) then s
      else s\<lparr>loadingInsight := True, asking := asking s @ [currentPrice s]\<rparr>)"

definition handleFetchInsight_resume :: "MarketInsight outcome \<Rightarrow> App \<Rightarrow> App" where
  "handleFetchInsight_resume settled s =
     (case settled of
        Throws \<Rightarrow> s
      | Returns result \<Rightarrow> s\<lparr>insight := Some result, loadingInsight := False\<rparr>)"

text \<open>
  The effects that run after a render, in the order of the source. An effect runs when
  one of its dependencies has changed: the persistence effect when \<open>setTgConfig\<close> was
  called (every call passes a new object), the monitoring effect when \<open>isMonitoring\<close> has
  changed (\<open>fetchPrice\<close> never changes), the alert check when \<open>currentPrice\<close>,
  \<open>threshold\<close>, \<open>isMonitoring\<close> or \<open>tgConfig\<close> has.
\<close>

definition effects :: "int \<Rightarrow> bool \<Rightarrow> App \<Rightarrow> App \<Rightarrow> App" where
  "effects now configSet old new =
     (let s1 = (if configSet then persistEffect new else new);
          s2 = (if isMonitoring new \<noteq> isMonitoring old then monitoringEffect s1 else s1)
      in if currentPrice new \<noteq> currentPrice old \<or> threshold new \<noteq> threshold old
            \<or> isMonitoring new \<noteq> isMonitoring old \<or> configSet
         then checkThreshold now s2 else s2)"

text \<open>On mount every effect runs once.\<close>

definition mountEffects :: "int \<Rightarrow> App \<Rightarrow> App" where
  "mountEffects now s = checkThreshold now (monitoringEffect (persistEffect s))"

definition App_mount :: "int \<Rightarrow> (jsstring \<rightharpoonup> jsstring) \<Rightarrow> App outcome" where
  "App_mount now storage =
     (case initialTgConfig storage of
        Throws \<Rightarrow> Throws
      | Returns config \<Rightarrow> Returns (mountEffects now (App_initial config storage)))"

text \<open>
  What can happen to the mounted component: the user clicks or types, a timer fires, or
  one of the pending asynchronous calls settles. Every event comes with the reading of
  \<open>Date.now()\<close> at its time. An event that cannot happen in a state (a timer that is not
  set, a call that is not pending, a click on the disabled insight button) leaves
  the state as it is.
\<close>

datatype event =
    Click_monitoring
  | Interval_fires nat
  | Fetch_settles "gold_response outcome"
  | Change_threshold number
  | Change_botToken jsstring
  | Change_chatId jsstring
  | Click_enabled
  | Send_settles nat "response outcome"
  | Click_insight
  | Insight_settles nat gemini
  | Click_tab tab

definition remove_nth :: "nat \<Rightarrow> 'a list \<Rightarrow> 'a list" where
  "remove_nth k xs = take k xs @ drop (Suc k) xs"

fun step :: "runtime \<Rightarrow> int \<Rightarrow> event \<Rightarrow> App \<Rightarrow> App" where
  "step rt now Click_monitoring s =
     effects now False s (s\<lparr>isMonitoring := \<not> isMonitoring s\<rparr>)"
| "step rt now (Interval_fires i) s =
     (if i \<in> set (map fst (timers s)) then fetchPrice s else s)"
| "step rt now (Fetch_settles fetched) s =
     (if fetching s = 0 then s
      else effects now False s (fetchPrice_resume rt (fetchLiveGoldPrice fetched now) s))"
| "step rt now (Change_threshold v) s =
     effects now False s (s\<lparr>threshold := v\<rparr>)"
| "step rt now (Change_botToken v) s =
     effects now True s (s\<lparr>tgConfig := (tgConfig s)\<lparr>botToken := v\<rparr>\<rparr>)"
| "step rt now (Change_chatId v) s =
     effects now True s (s\<lparr>tgConfig := (tgConfig s)\<lparr>chatId := v\<rparr>\<rparr>)"
| "step rt now Click_enabled s =
     effects now True s (s\<lparr>tgConfig := (tgConfig s)\<lparr>enabled := \<not> enabled (tgConfig s)\<rparr>\<rparr>)"
| "step rt now (Send_settles k fetched) s =
     (if k < length (sending s) then
        checkThreshold_resume rt now (sending s ! k) fetched
          (s\<lparr>sending := remove_nth k (sending s)\<rparr>)
      else s)"
| "step rt now Click_insight s =
     (if loadingInsight s \<or> js_strict_eq (currentPrice s) (Num 0) then s
      else handleFetchInsight s)"
| "step rt now (Insight_settles k ai) s =
     (if k < length (asking s) then
        handleFetchInsight_resume (getMarketInsight rt ai (asking s ! k))
          (s\<lparr>asking := remove_nth k (asking s)\<rparr>)
      else s)"
| "step rt now (Click_tab t) s = s\<lparr>activeTab := t\<rparr>"

fun run :: "runtime \<Rightarrow> (int \<times> event) list \<Rightarrow> App \<Rightarrow> App" where
  "run rt [] s = s"
| "run rt ((now, e) # es) s = run rt es (step rt now e s)"


section \<open>Invariants of the component\<close>

text \<open>
  At most one timer is set: the one the last run of the monitoring effect has set, with
  a delay of 60000 ms, and it is set exactly while monitoring is on.
\<close>

definition one_timer :: "App \<Rightarrow> bool" where
  "one_timer s \<longleftrightarrow>
     timers s = (case interval s of None \<Rightarrow> [] | Some i \<Rightarrow> [(i, 60000)])
     \<and> (isMonitoring s \<longleftrightarrow> interval s \<noteq> None)"

text \<open>The local storage holds the JSON text of the current configuration.\<close>

definition persisted :: "App \<Rightarrow> bool" where
  "persisted s \<longleftrightarrow>
     localStorage s (lit ''gold_tg_config'') = Some (JSON_stringify (tgConfig s))"

text \<open>The first condition of \<open>checkThreshold\<close>, and the call it starts.\<close>

definition alert_guard :: "App \<Rightarrow> bool" where
  "alert_guard s \<longleftrightarrow>
     isMonitoring s \<and> js_gt (currentPrice s) (Num 0) \<and> js_ge (currentPrice s) (threshold s)"

definition started_call :: "int \<Rightarrow> App \<Rightarrow> alert_call" where
  "started_call now s =
     \<lparr>now_c = now, currentPrice_c = currentPrice s, threshold_c = threshold s,
       tgConfig_c = tgConfig s\<rparr>"


section \<open>The fallback of getMarketInsight\<close>

text \<open>
  Claim C7. Whatever the price, when the call of the model throws, or when it returns and
  parsing the text of its response throws, \<open>getMarketInsight\<close> does not throw: it
  returns the insight with sentiment Neutral, analysis "Could not fetch AI analysis at this
  time." and recommendation "Monitor global economic indicators.". The call of the model is
  reached when the constructor of the client, which stands before the \<open>try\<close>, has returned.
\<close>

theorem getMarketInsight_fallback:
  assumes "new_GoogleGenAI ai = Returns ()"
    and "generateContent ai (prompt rt p) = Throws
         \<or> (\<exists>text. generateContent ai (prompt rt p) = Returns text
              \<and> JSON_parse_insight ai (jsonStr text) = Throws)"
  shows "getMarketInsight rt ai p =
           Returns \<lparr>sentiment = Neutral,
             analysis = lit ''Could not fetch AI analysis at this time.'',
             recommendation = lit ''Monitor global economic indicators.''\<rparr>"
  using assms by (auto simp: getMarketInsight_def)

theorem getMarketInsight_fallback_witness:
  "getMarketInsight
     \<lparr>toLocaleString = (\<lambda>n. []), toLocaleString_idID = (\<lambda>n. []),
       toLocaleTimeString_hm = (\<lambda>t. []), Date_toLocaleString = (\<lambda>t. []),
       toString = (\<lambda>t. [])\<rparr>
     \<lparr>new_GoogleGenAI = Returns (), generateContent = (\<lambda>p. Returns (Some (lit ''not json''))),
       JSON_parse_insight = (\<lambda>t. Throws)\<rparr>
     (Num 3000000) =
   Returns \<lparr>sentiment = Neutral,
     analysis = lit ''Could not fetch AI analysis at this time.'',
     recommendation = lit ''Monitor global economic indicators.''\<rparr>"
  by (rule getMarketInsight_fallback) simp_all


section \<open>What the effects leave alone\<close>

lemmas effect_defs = effects_def persistEffect_def monitoringEffect_def clearInterval_def
  fetchPrice_def checkThreshold_def Let_def

lemma effects_fields:
  "isMonitoring (effects now b old new) = isMonitoring new"
  "currentPrice (effects now b old new) = currentPrice new"
  "threshold (effects now b old new) = threshold new"
  "tgConfig (effects now b old new) = tgConfig new"
  "lastAlertTimeRef (effects now b old new) = lastAlertTimeRef new"
  "priceHistory (effects now b old new) = priceHistory new"
  "logs (effects now b old new) = logs new"
  "asking (effects now b old new) = asking new"
  by (simp_all add: effect_defs split: option.splits)

lemma effects_idle:
  "currentPrice new = currentPrice old \<Longrightarrow> threshold new = threshold old \<Longrightarrow>
   isMonitoring new = isMonitoring old \<Longrightarrow> effects now False old new = new"
  by (simp add: effects_def)

lemma effects_same_monitoring:
  "isMonitoring new = isMonitoring old \<Longrightarrow>
   timers (effects now b old new) = timers new \<and> interval (effects now b old new) = interval new"
  by (simp add: effect_defs)


section \<open>The price history\<close>

lemma priceHistory_mountEffects: "priceHistory (mountEffects now s) = priceHistory s"
  by (simp add: mountEffects_def effect_defs split: option.splits)

lemma length_slice_last: "length (slice_last n xs) \<le> n"
  by (simp add: slice_last_def)

lemma slice_last_full:
  "length xs = n \<Longrightarrow> 0 < n \<Longrightarrow> slice_last n (xs @ [x]) = tl xs @ [x]"
  by (cases xs) (simp_all add: slice_last_def)

lemma slice_last_short: "length xs < n \<Longrightarrow> slice_last n (xs @ [x]) = xs @ [x]"
  by (simp add: slice_last_def)

lemma priceHistory_fetchPrice_resume:
  "priceHistory (fetchPrice_resume rt settled s) =
     (case settled of
        Throws \<Rightarrow> priceHistory s
      | Returns data \<Rightarrow> slice_last 30 (priceHistory s @ [newPoint rt data]))"
  by (simp add: fetchPrice_resume_def split: outcome.splits)

lemma priceHistory_settled:
  assumes "fetching s \<noteq> 0" and "fetchLiveGoldPrice fetched now = Returns data"
  shows "priceHistory (step rt now (Fetch_settles fetched) s) =
           slice_last 30 (priceHistory s @ [newPoint rt data])"
  using assms by (simp add: effects_fields priceHistory_fetchPrice_resume)

lemma priceHistory_step:
  assumes "length (priceHistory s) \<le> 30"
  shows "length (priceHistory (step rt now e s)) \<le> 30"
proof (cases e)
  case (Fetch_settles fetched)
  with assms show ?thesis
    by (simp add: effects_fields priceHistory_fetchPrice_resume length_slice_last
        split: outcome.splits)
next
  case (Send_settles k fetched)
  with assms show ?thesis by (simp add: checkThreshold_resume_def Let_def)
next
  case (Insight_settles k ai)
  with assms show ?thesis by (simp add: handleFetchInsight_resume_def split: outcome.splits)
qed (use assms in \<open>simp_all add: effects_fields fetchPrice_def handleFetchInsight_def\<close>)

lemma priceHistory_run:
  "length (priceHistory s) \<le> 30 \<Longrightarrow> length (priceHistory (run rt es s)) \<le> 30"
  by (induction es arbitrary: s) (auto simp: priceHistory_step simp del: step.simps)

text \<open>
  Claim C1. In every state the component reaches from its mount, whatever the events,
  \<open>priceHistory\<close> has at most 30 points. When a pending fetch settles with data, the new
  history is the old one with the new point appended, cut to its last 30 points: the new
  point is the last one, a history of 30 points loses exactly its first point, and a
  shorter history loses nothing.
\<close>

theorem priceHistory_bounded:
  "length (priceHistory (run rt es (mountEffects now0 (App_initial config storage)))) \<le> 30
   \<and> (fetching s \<noteq> 0 \<and> fetchLiveGoldPrice fetched now = Returns data \<longrightarrow>
        priceHistory (step rt now (Fetch_settles fetched) s) =
          drop (length (priceHistory s) + 1 - 30) (priceHistory s @ [newPoint rt data])
        \<and> last (priceHistory (step rt now (Fetch_settles fetched) s)) = newPoint rt data
        \<and> (length (priceHistory s) = 30 \<longrightarrow>
             priceHistory (step rt now (Fetch_settles fetched) s) =
               tl (priceHistory s) @ [newPoint rt data])
        \<and> (length (priceHistory s) < 30 \<longrightarrow>
             priceHistory (step rt now (Fetch_settles fetched) s) =
               priceHistory s @ [newPoint rt data]))"
proof -
  have "length (priceHistory (mountEffects now0 (App_initial config storage))) \<le> 30"
    by (simp add: priceHistory_mountEffects App_initial_def)
  then have a: "length (priceHistory (run rt es (mountEffects now0 (App_initial config storage)))) \<le> 30"
    by (rule priceHistory_run)
  have b: "priceHistory (step rt now (Fetch_settles fetched) s) =
          drop (length (priceHistory s) + 1 - 30) (priceHistory s @ [newPoint rt data])
        \<and> last (priceHistory (step rt now (Fetch_settles fetched) s)) = newPoint rt data
        \<and> (length (priceHistory s) = 30 \<longrightarrow>
             priceHistory (step rt now (Fetch_settles fetched) s) =
               tl (priceHistory s) @ [newPoint rt data])
        \<and> (length (priceHistory s) < 30 \<longrightarrow>
             priceHistory (step rt now (Fetch_settles fetched) s) =
               priceHistory s @ [newPoint rt data])"
    if h: "fetching s \<noteq> 0" "fetchLiveGoldPrice fetched now = Returns data"
  proof -
    note eq = priceHistory_settled [OF h, of rt]
    have "slice_last 30 (priceHistory s @ [newPoint rt data]) =
            drop (length (priceHistory s) + 1 - 30) (priceHistory s @ [newPoint rt data])"
      by (simp add: slice_last_def)
    moreover have "last (slice_last 30 (priceHistory s @ [newPoint rt data])) = newPoint rt data"
      by (simp add: slice_last_def)
    moreover have "length (priceHistory s) = 30 \<longrightarrow>
        slice_last 30 (priceHistory s @ [newPoint rt data]) = tl (priceHistory s) @ [newPoint rt data]"
      by (simp add: slice_last_full)
    moreover have "length (priceHistory s) < 30 \<longrightarrow>
        slice_last 30 (priceHistory s @ [newPoint rt data]) = priceHistory s @ [newPoint rt data]"
      by (simp add: slice_last_short)
    ultimately show ?thesis unfolding eq by blast
  qed
  from a b show ?thesis by blast
qed

lemmas run_defs = effects_def mountEffects_def App_initial_def persistEffect_def monitoringEffect_def
      clearInterval_def fetchPrice_def checkThreshold_def fetchPrice_resume_def
      fetchLiveGoldPrice_def checkThreshold_resume_def sendTelegramAlert_def logEntry_def
      remove_nth_def Let_def INITIAL_THRESHOLD_def TROY_OUNCE_TO_GRAM_def slice_last_def
      newPoint_def handleFetchInsight_def lit_def

theorem priceHistory_bounded_witness:
  "length (priceHistory (run \<lparr>toLocaleString = (\<lambda>n. []), toLocaleString_idID = (\<lambda>n. []),
       toLocaleTimeString_hm = (\<lambda>t. []), Date_toLocaleString = (\<lambda>t. []),
       toString = (\<lambda>t. [])\<rparr>
      [(1700000000000, Click_monitoring), (1700000000400, Fetch_settles (Returns \<lparr>ok = True, json = Idr (Num 93310430.4)\<rparr>))]
      (mountEffects 1699999999000 (App_initial \<lparr>botToken = lit ''T'', chatId = lit ''1'', enabled = True\<rparr> Map.empty)))) \<le> 30
   \<and> priceHistory (step \<lparr>toLocaleString = (\<lambda>n. []), toLocaleString_idID = (\<lambda>n. []),
       toLocaleTimeString_hm = (\<lambda>t. []), Date_toLocaleString = (\<lambda>t. []),
       toString = (\<lambda>t. [])\<rparr> 1700000000400 (Fetch_settles (Returns \<lparr>ok = True, json = Idr (Num 93310430.4)\<rparr>))
        ((App_initial \<lparr>botToken = lit ''T'', chatId = lit ''1'', enabled = True\<rparr> Map.empty)
          \<lparr>priceHistory := replicate 30 \<lparr>time = [], price = Num 1\<rparr>, fetching := 1\<rparr>)) =
      replicate 29 \<lparr>time = [], price = Num 1\<rparr> @ [\<lparr>time = [], price = Num 3000000\<rparr>]"
  using priceHistory_bounded [where rt = "\<lparr>toLocaleString = (\<lambda>n. []), toLocaleString_idID = (\<lambda>n. []),
       toLocaleTimeString_hm = (\<lambda>t. []), Date_toLocaleString = (\<lambda>t. []),
       toString = (\<lambda>t. [])\<rparr>"
      and es = "[(1700000000000, Click_monitoring), (1700000000400, Fetch_settles (Returns \<lparr>ok = True, json = Idr (Num 93310430.4)\<rparr>))]"
      and ?now0.0 = 1699999999000 and config = "\<lparr>botToken = lit ''T'', chatId = lit ''1'', enabled = True\<rparr>" and storage = Map.empty
      and s = "(App_initial \<lparr>botToken = lit ''T'', chatId = lit ''1'', enabled = True\<rparr> Map.empty)
          \<lparr>priceHistory := replicate 30 \<lparr>time = [], price = Num 1\<rparr>, fetching := 1\<rparr>"
      and fetched = "(Returns \<lparr>ok = True, json = Idr (Num 93310430.4)\<rparr>)" and now = 1700000000400
      and data = "\<lparr>pricePerGram = Num 3000000, timestamp = 1700000000400,
          source = lit ''Global Market (XAU/IDR)''\<rparr>"]
  by (simp add: fetchLiveGoldPrice_def TROY_OUNCE_TO_GRAM_def newPoint_def App_initial_def
      del: step.simps run.simps)


section \<open>The polling timer\<close>

lemma one_timer_mount: "one_timer (mountEffects now (App_initial config storage))"
  by (simp add: one_timer_def mountEffects_def App_initial_def effect_defs)

lemma one_timer_toggle: "one_timer s \<Longrightarrow> one_timer (step rt now Click_monitoring s)"
  by (auto simp: one_timer_def effect_defs split: option.splits)

lemma one_timer_step:
  assumes "one_timer s"
  shows "one_timer (step rt now e s)"
proof (cases e)
  case Click_monitoring
  with assms show ?thesis by (simp only: one_timer_toggle)
next
  case (Fetch_settles fetched)
  with assms show ?thesis
    by (simp add: one_timer_def effects_same_monitoring effects_fields fetchPrice_resume_def
        split: outcome.splits)
next
  case (Send_settles k fetched)
  with assms show ?thesis by (simp add: one_timer_def checkThreshold_resume_def Let_def)
next
  case (Insight_settles k ai)
  with assms show ?thesis
    by (simp add: one_timer_def handleFetchInsight_resume_def split: outcome.splits)
qed (use assms in \<open>simp_all add: one_timer_def effects_same_monitoring effects_fields
      fetchPrice_def handleFetchInsight_def\<close>)

lemma one_timer_run: "one_timer s \<Longrightarrow> one_timer (run rt es s)"
  by (induction es arbitrary: s) (auto simp: one_timer_step simp del: step.simps)

lemma toggle_on:
  assumes "one_timer s" and "\<not> isMonitoring s"
  shows "isMonitoring (step rt now Click_monitoring s)
    \<and> fetching (step rt now Click_monitoring s) = Suc (fetching s)
    \<and> loadingPrice (step rt now Click_monitoring s)
    \<and> timers (step rt now Click_monitoring s) = [(nextTimer s, 60000)]"
  using assms by (auto simp: one_timer_def effect_defs split: option.splits)

lemma toggle_off:
  assumes "one_timer s" and "isMonitoring s"
  shows "\<not> isMonitoring (step rt now Click_monitoring s)
    \<and> fetching (step rt now Click_monitoring s) = fetching s
    \<and> timers (step rt now Click_monitoring s) = []"
  using assms by (auto simp: one_timer_def effect_defs split: option.splits)

lemma timer_fires:
  assumes "one_timer s" and "isMonitoring s"
  shows "\<exists>i. timers s = [(i, 60000)] \<and> step rt now (Interval_fires i) s = fetchPrice s"
  using assms by (auto simp: one_timer_def split: option.splits)

text \<open>
  Claim C4. In every state \<open>s\<close> the component reaches from its mount there is at most one
  timer. While monitoring is off there is none, and the click that turns monitoring on
  issues one fetch at once and sets one timer with a delay of 60000 ms. While monitoring
  is on there is exactly that timer, each time it fires it issues a fetch, and the click
  that turns monitoring off clears it and issues no fetch.
\<close>

theorem single_polling_timer:
  "(let s = run rt es (mountEffects now0 (App_initial config storage)) in
     length (timers s) \<le> 1
     \<and> (\<not> isMonitoring s \<longrightarrow>
          timers s = []
          \<and> isMonitoring (step rt now Click_monitoring s)
          \<and> fetching (step rt now Click_monitoring s) = Suc (fetching s)
          \<and> loadingPrice (step rt now Click_monitoring s)
          \<and> timers (step rt now Click_monitoring s) = [(nextTimer s, 60000)])
     \<and> (isMonitoring s \<longrightarrow>
          (\<exists>i. timers s = [(i, 60000)] \<and> step rt now (Interval_fires i) s = fetchPrice s)
          \<and> \<not> isMonitoring (step rt now Click_monitoring s)
          \<and> timers (step rt now Click_monitoring s) = []
          \<and> fetching (step rt now Click_monitoring s) = fetching s))"
proof -
  define s where "s = run rt es (mountEffects now0 (App_initial config storage))"
  have inv: "one_timer s"
    unfolding s_def by (rule one_timer_run) (rule one_timer_mount)
  have a: "length (timers s) \<le> 1"
    using inv by (simp add: one_timer_def split: option.splits)
  have b: "\<not> isMonitoring s \<longrightarrow> timers s = []"
    using inv by (auto simp: one_timer_def split: option.splits)
  show ?thesis
    unfolding Let_def s_def [symmetric]
    using a b toggle_on [OF inv, of rt now] toggle_off [OF inv, of rt now]
      timer_fires [OF inv, of rt now]
    by blast
qed

theorem single_polling_timer_witness:
  "\<not> isMonitoring (run \<lparr>toLocaleString = (\<lambda>n. []), toLocaleString_idID = (\<lambda>n. []),
       toLocaleTimeString_hm = (\<lambda>t. []), Date_toLocaleString = (\<lambda>t. []),
       toString = (\<lambda>t. [])\<rparr> [] (mountEffects 1699999999000 (App_initial \<lparr>botToken = lit ''T'', chatId = lit ''1'', enabled = True\<rparr> Map.empty)))
   \<and> timers (run \<lparr>toLocaleString = (\<lambda>n. []), toLocaleString_idID = (\<lambda>n. []),
       toLocaleTimeString_hm = (\<lambda>t. []), Date_toLocaleString = (\<lambda>t. []),
       toString = (\<lambda>t. [])\<rparr> [] (mountEffects 1699999999000 (App_initial \<lparr>botToken = lit ''T'', chatId = lit ''1'', enabled = True\<rparr> Map.empty))) = []
   \<and> timers (step \<lparr>toLocaleString = (\<lambda>n. []), toLocaleString_idID = (\<lambda>n. []),
       toLocaleTimeString_hm = (\<lambda>t. []), Date_toLocaleString = (\<lambda>t. []),
       toString = (\<lambda>t. [])\<rparr> 1700000000000 Click_monitoring (run \<lparr>toLocaleString = (\<lambda>n. []), toLocaleString_idID = (\<lambda>n. []),
       toLocaleTimeString_hm = (\<lambda>t. []), Date_toLocaleString = (\<lambda>t. []),
       toString = (\<lambda>t. [])\<rparr> [] (mountEffects 1699999999000 (App_initial \<lparr>botToken = lit ''T'', chatId = lit ''1'', enabled = True\<rparr> Map.empty)))) =
       [(nextTimer (run \<lparr>toLocaleString = (\<lambda>n. []), toLocaleString_idID = (\<lambda>n. []),
       toLocaleTimeString_hm = (\<lambda>t. []), Date_toLocaleString = (\<lambda>t. []),
       toString = (\<lambda>t. [])\<rparr> [] (mountEffects 1699999999000 (App_initial \<lparr>botToken = lit ''T'', chatId = lit ''1'', enabled = True\<rparr> Map.empty))), 60000)]
   \<and> fetching (step \<lparr>toLocaleString = (\<lambda>n. []), toLocaleString_idID = (\<lambda>n. []),
       toLocaleTimeString_hm = (\<lambda>t. []), Date_toLocaleString = (\<lambda>t. []),
       toString = (\<lambda>t. [])\<rparr> 1700000000000 Click_monitoring (run \<lparr>toLocaleString = (\<lambda>n. []), toLocaleString_idID = (\<lambda>n. []),
       toLocaleTimeString_hm = (\<lambda>t. []), Date_toLocaleString = (\<lambda>t. []),
       toString = (\<lambda>t. [])\<rparr> [] (mountEffects 1699999999000 (App_initial \<lparr>botToken = lit ''T'', chatId = lit ''1'', enabled = True\<rparr> Map.empty)))) =
       Suc (fetching (run \<lparr>toLocaleString = (\<lambda>n. []), toLocaleString_idID = (\<lambda>n. []),
       toLocaleTimeString_hm = (\<lambda>t. []), Date_toLocaleString = (\<lambda>t. []),
       toString = (\<lambda>t. [])\<rparr> [] (mountEffects 1699999999000 (App_initial \<lparr>botToken = lit ''T'', chatId = lit ''1'', enabled = True\<rparr> Map.empty))))
   \<and> isMonitoring (run \<lparr>toLocaleString = (\<lambda>n. []), toLocaleString_idID = (\<lambda>n. []),
       toLocaleTimeString_hm = (\<lambda>t. []), Date_toLocaleString = (\<lambda>t. []),
       toString = (\<lambda>t. [])\<rparr> [(1700000000000, Click_monitoring)] (mountEffects 1699999999000 (App_initial \<lparr>botToken = lit ''T'', chatId = lit ''1'', enabled = True\<rparr> Map.empty)))
   \<and> length (timers (run \<lparr>toLocaleString = (\<lambda>n. []), toLocaleString_idID = (\<lambda>n. []),
       toLocaleTimeString_hm = (\<lambda>t. []), Date_toLocaleString = (\<lambda>t. []),
       toString = (\<lambda>t. [])\<rparr> [(1700000000000, Click_monitoring)] (mountEffects 1699999999000 (App_initial \<lparr>botToken = lit ''T'', chatId = lit ''1'', enabled = True\<rparr> Map.empty)))) \<le> 1
   \<and> timers (step \<lparr>toLocaleString = (\<lambda>n. []), toLocaleString_idID = (\<lambda>n. []),
       toLocaleTimeString_hm = (\<lambda>t. []), Date_toLocaleString = (\<lambda>t. []),
       toString = (\<lambda>t. [])\<rparr> 1700000000900 Click_monitoring
        (run \<lparr>toLocaleString = (\<lambda>n. []), toLocaleString_idID = (\<lambda>n. []),
       toLocaleTimeString_hm = (\<lambda>t. []), Date_toLocaleString = (\<lambda>t. []),
       toString = (\<lambda>t. [])\<rparr> [(1700000000000, Click_monitoring)] (mountEffects 1699999999000 (App_initial \<lparr>botToken = lit ''T'', chatId = lit ''1'', enabled = True\<rparr> Map.empty)))) = []"
proof -
  have off: "\<not> isMonitoring (run \<lparr>toLocaleString = (\<lambda>n. []), toLocaleString_idID = (\<lambda>n. []),
       toLocaleTimeString_hm = (\<lambda>t. []), Date_toLocaleString = (\<lambda>t. []),
       toString = (\<lambda>t. [])\<rparr> [] (mountEffects 1699999999000 (App_initial \<lparr>botToken = lit ''T'', chatId = lit ''1'', enabled = True\<rparr> Map.empty)))"
    by (simp add: run_defs)
  have on: "isMonitoring (run \<lparr>toLocaleString = (\<lambda>n. []), toLocaleString_idID = (\<lambda>n. []),
       toLocaleTimeString_hm = (\<lambda>t. []), Date_toLocaleString = (\<lambda>t. []),
       toString = (\<lambda>t. [])\<rparr> [(1700000000000, Click_monitoring)] (mountEffects 1699999999000 (App_initial \<lparr>botToken = lit ''T'', chatId = lit ''1'', enabled = True\<rparr> Map.empty)))"
    by (simp add: run_defs)
  from off on
    single_polling_timer [where rt = "\<lparr>toLocaleString = (\<lambda>n. []), toLocaleString_idID = (\<lambda>n. []),
       toLocaleTimeString_hm = (\<lambda>t. []), Date_toLocaleString = (\<lambda>t. []),
       toString = (\<lambda>t. [])\<rparr>" and es = "[]" and ?now0.0 = 1699999999000
      and config = "\<lparr>botToken = lit ''T'', chatId = lit ''1'', enabled = True\<rparr>" and storage = Map.empty and now = 1700000000000, unfolded Let_def]
    single_polling_timer [where rt = "\<lparr>toLocaleString = (\<lambda>n. []), toLocaleString_idID = (\<lambda>n. []),
       toLocaleTimeString_hm = (\<lambda>t. []), Date_toLocaleString = (\<lambda>t. []),
       toString = (\<lambda>t. [])\<rparr>" and es = "[(1700000000000, Click_monitoring)]"
      and ?now0.0 = 1699999999000 and config = "\<lparr>botToken = lit ''T'', chatId = lit ''1'', enabled = True\<rparr>" and storage = Map.empty and now = 1700000000900,
      unfolded Let_def]
  show ?thesis by blast
qed


section \<open>Alerts\<close>

lemma sending_effects:
  "sending (effects now b old new) = sending new
   \<or> (sending (effects now b old new) = sending new @ [started_call now new]
      \<and> alert_guard new \<and> now - lastAlertTimeRef new > 600000)"
  by (simp add: effect_defs alert_guard_def started_call_def split: option.splits)

lemma sending_grows:
  assumes "length (sending s) < length (sending (step rt now e s))"
  shows "sending (step rt now e s) = sending s @ [started_call now (step rt now e s)]
    \<and> alert_guard (step rt now e s) \<and> now - lastAlertTimeRef s > 600000"
proof -
  have key: "sending (step rt now e s) = sending s @ [started_call now (step rt now e s)]
    \<and> alert_guard (step rt now e s) \<and> now - lastAlertTimeRef s > 600000"
    if "step rt now e s = effects now b s new" "sending new = sending s"
      "lastAlertTimeRef new = lastAlertTimeRef s" for b new
  proof -
    from assms that have "sending (effects now b s new) \<noteq> sending new" by auto
    with sending_effects [of now b s new]
    have "sending (effects now b s new) = sending new @ [started_call now new]"
      "alert_guard new" "now - lastAlertTimeRef new > 600000" by auto
    with that show ?thesis
      by (simp add: alert_guard_def started_call_def effects_fields)
  qed
  show ?thesis
  proof (cases e)
    case Click_monitoring
    then show ?thesis by (intro key [of False "s\<lparr>isMonitoring := \<not> isMonitoring s\<rparr>"]) simp_all
  next
    case (Interval_fires i)
    with assms show ?thesis by (simp add: fetchPrice_def split: if_splits)
  next
    case (Fetch_settles fetched)
    show ?thesis
    proof (cases "fetching s = 0")
      case True
      with assms Fetch_settles show ?thesis by simp
    next
      case False
      with Fetch_settles show ?thesis
        by (intro key [of False "fetchPrice_resume rt (fetchLiveGoldPrice fetched now) s"])
          (simp_all add: fetchPrice_resume_def split: outcome.splits)
    qed
  next
    case (Change_threshold v)
    then show ?thesis by (intro key [of False "s\<lparr>threshold := v\<rparr>"]) simp_all
  next
    case (Change_botToken v)
    then show ?thesis
      by (intro key [of True "s\<lparr>tgConfig := (tgConfig s)\<lparr>botToken := v\<rparr>\<rparr>"]) simp_all
  next
    case (Change_chatId v)
    then show ?thesis
      by (intro key [of True "s\<lparr>tgConfig := (tgConfig s)\<lparr>chatId := v\<rparr>\<rparr>"]) simp_all
  next
    case Click_enabled
    then show ?thesis
      by (intro key [of True "s\<lparr>tgConfig := (tgConfig s)\<lparr>enabled := \<not> enabled (tgConfig s)\<rparr>\<rparr>"])
        simp_all
  next
    case (Send_settles k fetched)
    with assms show ?thesis
      by (simp add: checkThreshold_resume_def Let_def remove_nth_def split: if_splits)
  next
    case Click_insight
    with assms show ?thesis by (simp add: handleFetchInsight_def split: if_splits)
  next
    case (Insight_settles k ai)
    with assms show ?thesis
      by (simp add: handleFetchInsight_resume_def split: if_splits outcome.splits)
  next
    case (Click_tab t)
    with assms show ?thesis by simp
  qed
qed

lemma logs_settle:
  assumes "k < length (sending s)"
  shows "logs (step rt later (Send_settles k fetched) s) =
     take 50 (logEntry rt later (sending s ! k)
       (sendTelegramAlert (tgConfig_c (sending s ! k)) (currentPrice_c (sending s ! k))
          (threshold_c (sending s ! k)) fetched) # logs s)"
  using assms by (simp add: checkThreshold_resume_def Let_def)

text \<open>
  Claim C3. A step of the component starts a call of \<open>sendTelegramAlert\<close> only in a state
  where monitoring is on, the current price is greater than 0 and the current price is at
  least the threshold; the call carries that price and that threshold. When the call
  \<open>k\<close> settles, the log gets a new first entry (the log is then cut to 50 entries) whose
  message names the threshold and the price of the call, and whose status is 'success'
  exactly when \<open>sendTelegramAlert\<close> returned true, 'failed' otherwise.
\<close>

theorem alert_threshold_based:
  "(length (sending s) < length (sending (step rt now e s)) \<longrightarrow>
      sending (step rt now e s) =
        sending s @ [\<lparr>now_c = now, currentPrice_c = currentPrice (step rt now e s),
          threshold_c = threshold (step rt now e s), tgConfig_c = tgConfig (step rt now e s)\<rparr>]
      \<and> isMonitoring (step rt now e s)
      \<and> js_gt (currentPrice (step rt now e s)) (Num 0)
      \<and> js_ge (currentPrice (step rt now e s)) (threshold (step rt now e s)))
   \<and> (k < length (sending s) \<longrightarrow>
      (let call = sending s ! k;
           sent = sendTelegramAlert (tgConfig_c call) (currentPrice_c call) (threshold_c call) fetched;
           s' = step rt later (Send_settles k fetched) s
       in logs s' = take 50 (hd (logs s') # logs s)
          \<and> message (hd (logs s')) =
               lit ''Price threshold IDR '' @ toLocaleString rt (threshold_c call)
               @ lit '' triggered at IDR '' @ toLocaleString rt (currentPrice_c call)
          \<and> (status (hd (logs s')) = success \<longleftrightarrow> sent)
          \<and> (status (hd (logs s')) = failed \<longleftrightarrow> \<not> sent)))"
proof -
  have a: "length (sending s) < length (sending (step rt now e s)) \<longrightarrow>
      sending (step rt now e s) =
        sending s @ [\<lparr>now_c = now, currentPrice_c = currentPrice (step rt now e s),
          threshold_c = threshold (step rt now e s), tgConfig_c = tgConfig (step rt now e s)\<rparr>]
      \<and> isMonitoring (step rt now e s)
      \<and> js_gt (currentPrice (step rt now e s)) (Num 0)
      \<and> js_ge (currentPrice (step rt now e s)) (threshold (step rt now e s))"
    using sending_grows [of s rt now e] by (simp add: alert_guard_def started_call_def)
  have b: "k < length (sending s) \<longrightarrow>
      (let call = sending s ! k;
           sent = sendTelegramAlert (tgConfig_c call) (currentPrice_c call) (threshold_c call) fetched;
           s' = step rt later (Send_settles k fetched) s
       in logs s' = take 50 (hd (logs s') # logs s)
          \<and> message (hd (logs s')) =
               lit ''Price threshold IDR '' @ toLocaleString rt (threshold_c call)
               @ lit '' triggered at IDR '' @ toLocaleString rt (currentPrice_c call)
          \<and> (status (hd (logs s')) = success \<longleftrightarrow> sent)
          \<and> (status (hd (logs s')) = failed \<longleftrightarrow> \<not> sent))"
    by (simp add: logs_settle logEntry_def Let_def del: step.simps)
  from a b show ?thesis by (rule conjI)
qed

theorem alert_threshold_based_witness:
  "length (sending (run \<lparr>toLocaleString = (\<lambda>n. []), toLocaleString_idID = (\<lambda>n. []),
       toLocaleTimeString_hm = (\<lambda>t. []), Date_toLocaleString = (\<lambda>t. []),
       toString = (\<lambda>t. [])\<rparr> [(1700000000000, Click_monitoring)] (mountEffects 1699999999000 (App_initial \<lparr>botToken = lit ''T'', chatId = lit ''1'', enabled = True\<rparr> Map.empty))))
     < length (sending (step \<lparr>toLocaleString = (\<lambda>n. []), toLocaleString_idID = (\<lambda>n. []),
       toLocaleTimeString_hm = (\<lambda>t. []), Date_toLocaleString = (\<lambda>t. []),
       toString = (\<lambda>t. [])\<rparr> 1700000000400 (Fetch_settles (Returns \<lparr>ok = True, json = Idr (Num 93310430.4)\<rparr>))
         (run \<lparr>toLocaleString = (\<lambda>n. []), toLocaleString_idID = (\<lambda>n. []),
       toLocaleTimeString_hm = (\<lambda>t. []), Date_toLocaleString = (\<lambda>t. []),
       toString = (\<lambda>t. [])\<rparr> [(1700000000000, Click_monitoring)] (mountEffects 1699999999000 (App_initial \<lparr>botToken = lit ''T'', chatId = lit ''1'', enabled = True\<rparr> Map.empty)))))
   \<and> isMonitoring (step \<lparr>toLocaleString = (\<lambda>n. []), toLocaleString_idID = (\<lambda>n. []),
       toLocaleTimeString_hm = (\<lambda>t. []), Date_toLocaleString = (\<lambda>t. []),
       toString = (\<lambda>t. [])\<rparr> 1700000000400 (Fetch_settles (Returns \<lparr>ok = True, json = Idr (Num 93310430.4)\<rparr>))
         (run \<lparr>toLocaleString = (\<lambda>n. []), toLocaleString_idID = (\<lambda>n. []),
       toLocaleTimeString_hm = (\<lambda>t. []), Date_toLocaleString = (\<lambda>t. []),
       toString = (\<lambda>t. [])\<rparr> [(1700000000000, Click_monitoring)] (mountEffects 1699999999000 (App_initial \<lparr>botToken = lit ''T'', chatId = lit ''1'', enabled = True\<rparr> Map.empty))))
   \<and> js_ge (currentPrice (step \<lparr>toLocaleString = (\<lambda>n. []), toLocaleString_idID = (\<lambda>n. []),
       toLocaleTimeString_hm = (\<lambda>t. []), Date_toLocaleString = (\<lambda>t. []),
       toString = (\<lambda>t. [])\<rparr> 1700000000400 (Fetch_settles (Returns \<lparr>ok = True, json = Idr (Num 93310430.4)\<rparr>))
         (run \<lparr>toLocaleString = (\<lambda>n. []), toLocaleString_idID = (\<lambda>n. []),
       toLocaleTimeString_hm = (\<lambda>t. []), Date_toLocaleString = (\<lambda>t. []),
       toString = (\<lambda>t. [])\<rparr> [(1700000000000, Click_monitoring)] (mountEffects 1699999999000 (App_initial \<lparr>botToken = lit ''T'', chatId = lit ''1'', enabled = True\<rparr> Map.empty)))))
       (threshold (step \<lparr>toLocaleString = (\<lambda>n. []), toLocaleString_idID = (\<lambda>n. []),
       toLocaleTimeString_hm = (\<lambda>t. []), Date_toLocaleString = (\<lambda>t. []),
       toString = (\<lambda>t. [])\<rparr> 1700000000400 (Fetch_settles (Returns \<lparr>ok = True, json = Idr (Num 93310430.4)\<rparr>))
         (run \<lparr>toLocaleString = (\<lambda>n. []), toLocaleString_idID = (\<lambda>n. []),
       toLocaleTimeString_hm = (\<lambda>t. []), Date_toLocaleString = (\<lambda>t. []),
       toString = (\<lambda>t. [])\<rparr> [(1700000000000, Click_monitoring)] (mountEffects 1699999999000 (App_initial \<lparr>botToken = lit ''T'', chatId = lit ''1'', enabled = True\<rparr> Map.empty)))))
   \<and> 0 < length (sending
         (run \<lparr>toLocaleString = (\<lambda>n. []), toLocaleString_idID = (\<lambda>n. []),
       toLocaleTimeString_hm = (\<lambda>t. []), Date_toLocaleString = (\<lambda>t. []),
       toString = (\<lambda>t. [])\<rparr> [(1700000000000, Click_monitoring), (1700000000400, Fetch_settles (Returns \<lparr>ok = True, json = Idr (Num 93310430.4)\<rparr>))] (mountEffects 1699999999000 (App_initial \<lparr>botToken = lit ''T'', chatId = lit ''1'', enabled = True\<rparr> Map.empty))))
   \<and> status (hd (logs (step \<lparr>toLocaleString = (\<lambda>n. []), toLocaleString_idID = (\<lambda>n. []),
       toLocaleTimeString_hm = (\<lambda>t. []), Date_toLocaleString = (\<lambda>t. []),
       toString = (\<lambda>t. [])\<rparr> 1700000001000 (Send_settles 0 (Returns \<lparr>ok = True\<rparr>))
         (run \<lparr>toLocaleString = (\<lambda>n. []), toLocaleString_idID = (\<lambda>n. []),
       toLocaleTimeString_hm = (\<lambda>t. []), Date_toLocaleString = (\<lambda>t. []),
       toString = (\<lambda>t. [])\<rparr> [(1700000000000, Click_monitoring), (1700000000400, Fetch_settles (Returns \<lparr>ok = True, json = Idr (Num 93310430.4)\<rparr>))] (mountEffects 1699999999000 (App_initial \<lparr>botToken = lit ''T'', chatId = lit ''1'', enabled = True\<rparr> Map.empty)))))) = success"
proof -
  have grows: "length (sending (run \<lparr>toLocaleString = (\<lambda>n. []), toLocaleString_idID = (\<lambda>n. []),
       toLocaleTimeString_hm = (\<lambda>t. []), Date_toLocaleString = (\<lambda>t. []),
       toString = (\<lambda>t. [])\<rparr> [(1700000000000, Click_monitoring)] (mountEffects 1699999999000 (App_initial \<lparr>botToken = lit ''T'', chatId = lit ''1'', enabled = True\<rparr> Map.empty))))
     < length (sending (step \<lparr>toLocaleString = (\<lambda>n. []), toLocaleString_idID = (\<lambda>n. []),
       toLocaleTimeString_hm = (\<lambda>t. []), Date_toLocaleString = (\<lambda>t. []),
       toString = (\<lambda>t. [])\<rparr> 1700000000400 (Fetch_settles (Returns \<lparr>ok = True, json = Idr (Num 93310430.4)\<rparr>))
         (run \<lparr>toLocaleString = (\<lambda>n. []), toLocaleString_idID = (\<lambda>n. []),
       toLocaleTimeString_hm = (\<lambda>t. []), Date_toLocaleString = (\<lambda>t. []),
       toString = (\<lambda>t. [])\<rparr> [(1700000000000, Click_monitoring)] (mountEffects 1699999999000 (App_initial \<lparr>botToken = lit ''T'', chatId = lit ''1'', enabled = True\<rparr> Map.empty)))))"
    by (simp add: run_defs)
  have pending: "0 < length (sending
         (run \<lparr>toLocaleString = (\<lambda>n. []), toLocaleString_idID = (\<lambda>n. []),
       toLocaleTimeString_hm = (\<lambda>t. []), Date_toLocaleString = (\<lambda>t. []),
       toString = (\<lambda>t. [])\<rparr> [(1700000000000, Click_monitoring), (1700000000400, Fetch_settles (Returns \<lparr>ok = True, json = Idr (Num 93310430.4)\<rparr>))] (mountEffects 1699999999000 (App_initial \<lparr>botToken = lit ''T'', chatId = lit ''1'', enabled = True\<rparr> Map.empty))))"
    by (simp add: run_defs)
  have sent: "sendTelegramAlert
      (tgConfig_c (sending
         (run \<lparr>toLocaleString = (\<lambda>n. []), toLocaleString_idID = (\<lambda>n. []),
       toLocaleTimeString_hm = (\<lambda>t. []), Date_toLocaleString = (\<lambda>t. []),
       toString = (\<lambda>t. [])\<rparr> [(1700000000000, Click_monitoring), (1700000000400, Fetch_settles (Returns \<lparr>ok = True, json = Idr (Num 93310430.4)\<rparr>))] (mountEffects 1699999999000 (App_initial \<lparr>botToken = lit ''T'', chatId = lit ''1'', enabled = True\<rparr> Map.empty))) ! 0))
      (currentPrice_c (sending
         (run \<lparr>toLocaleString = (\<lambda>n. []), toLocaleString_idID = (\<lambda>n. []),
       toLocaleTimeString_hm = (\<lambda>t. []), Date_toLocaleString = (\<lambda>t. []),
       toString = (\<lambda>t. [])\<rparr> [(1700000000000, Click_monitoring), (1700000000400, Fetch_settles (Returns \<lparr>ok = True, json = Idr (Num 93310430.4)\<rparr>))] (mountEffects 1699999999000 (App_initial \<lparr>botToken = lit ''T'', chatId = lit ''1'', enabled = True\<rparr> Map.empty))) ! 0))
      (threshold_c (sending
         (run \<lparr>toLocaleString = (\<lambda>n. []), toLocaleString_idID = (\<lambda>n. []),
       toLocaleTimeString_hm = (\<lambda>t. []), Date_toLocaleString = (\<lambda>t. []),
       toString = (\<lambda>t. [])\<rparr> [(1700000000000, Click_monitoring), (1700000000400, Fetch_settles (Returns \<lparr>ok = True, json = Idr (Num 93310430.4)\<rparr>))] (mountEffects 1699999999000 (App_initial \<lparr>botToken = lit ''T'', chatId = lit ''1'', enabled = True\<rparr> Map.empty))) ! 0))
      (Returns \<lparr>ok = True\<rparr>)"
    by (simp add: run_defs)
  from grows pending sent
    alert_threshold_based [where rt = "\<lparr>toLocaleString = (\<lambda>n. []), toLocaleString_idID = (\<lambda>n. []),
       toLocaleTimeString_hm = (\<lambda>t. []), Date_toLocaleString = (\<lambda>t. []),
       toString = (\<lambda>t. [])\<rparr>" and now = 1700000000400
      and e = "Fetch_settles (Returns \<lparr>ok = True, json = Idr (Num 93310430.4)\<rparr>)"
      and s = "run \<lparr>toLocaleString = (\<lambda>n. []), toLocaleString_idID = (\<lambda>n. []),
       toLocaleTimeString_hm = (\<lambda>t. []), Date_toLocaleString = (\<lambda>t. []),
       toString = (\<lambda>t. [])\<rparr> [(1700000000000, Click_monitoring)] (mountEffects 1699999999000 (App_initial \<lparr>botToken = lit ''T'', chatId = lit ''1'', enabled = True\<rparr> Map.empty))" and k = 1, unfolded Let_def]
    alert_threshold_based [where rt = "\<lparr>toLocaleString = (\<lambda>n. []), toLocaleString_idID = (\<lambda>n. []),
       toLocaleTimeString_hm = (\<lambda>t. []), Date_toLocaleString = (\<lambda>t. []),
       toString = (\<lambda>t. [])\<rparr>" and now = 1700000001000 and later = 1700000001000
      and e = "Click_tab Logs" and k = 0 and fetched = "Returns \<lparr>ok = True\<rparr>"
      and s = "run \<lparr>toLocaleString = (\<lambda>n. []), toLocaleString_idID = (\<lambda>n. []),
       toLocaleTimeString_hm = (\<lambda>t. []), Date_toLocaleString = (\<lambda>t. []),
       toString = (\<lambda>t. [])\<rparr> [(1700000000000, Click_monitoring), (1700000000400, Fetch_settles (Returns \<lparr>ok = True, json = Idr (Num 93310430.4)\<rparr>))] (mountEffects 1699999999000 (App_initial \<lparr>botToken = lit ''T'', chatId = lit ''1'', enabled = True\<rparr> Map.empty))",
      unfolded Let_def]
  show ?thesis by blast
qed


section \<open>The debounce of the alerts\<close>

text \<open>
  What the debounce does hold: a step starts a call only when more than 600000 ms lie
  between the reading of the clock and \<open>lastAlertTimeRef\<close>; a call that settles with
  \<open>sendTelegramAlert\<close> returning false leaves \<open>lastAlertTimeRef\<close> as it is, and one that
  settles with true stores the reading of the clock the call had started with.
\<close>

lemma send_started_after_debounce:
  "length (sending s) < length (sending (step rt now e s)) \<Longrightarrow>
   now - lastAlertTimeRef s > 600000"
  by (simp add: sending_grows del: step.simps)

lemma lastAlertTimeRef_settle:
  assumes "k < length (sending s)"
  shows "lastAlertTimeRef (step rt later (Send_settles k fetched) s) =
     (if sendTelegramAlert (tgConfig_c (sending s ! k)) (currentPrice_c (sending s ! k))
           (threshold_c (sending s ! k)) fetched
      then now_c (sending s ! k) else lastAlertTimeRef s)"
  using assms by (simp add: checkThreshold_resume_def Let_def)

text \<open>
  Claim C2. The claim fails on the code. \<open>checkThreshold\<close> reads \<open>lastAlertTimeRef\<close> before
  it awaits \<open>sendTelegramAlert\<close> and writes it after, so a second call that starts while the
  first one waits for Telegram passes the same test. Here monitoring is turned on, the
  feed answers with a price of 3000000 above the threshold of 2900000, which starts a first
  call at 1700000000400; 500 ms later, before Telegram has answered, the user changes the
  threshold to 2950000, which starts a second call at 1700000000900. Both calls are then
  pending; both settle with a response that is ok, so the log holds two entries with
  status 'success' for two sends that started 500 ms apart.
\<close>

theorem debounce_race:
  "(let s3 = run rt [(1700000000000, Click_monitoring), (1700000000400, Fetch_settles (Returns \<lparr>ok = True, json = Idr (Num 93310430.4)\<rparr>)),
               (1700000000900, Change_threshold (Num 2950000))] (mountEffects 1699999999000 (App_initial \<lparr>botToken = lit ''T'', chatId = lit ''1'', enabled = True\<rparr> Map.empty));
        s5 = run rt [(1700000001000, Send_settles 0 (Returns \<lparr>ok = True\<rparr>)),
               (1700000001200, Send_settles 0 (Returns \<lparr>ok = True\<rparr>))] s3
    in currentPrice s3 = Num 3000000
       \<and> map now_c (sending s3) = [1700000000400, 1700000000900]
       \<and> map status (logs s5) = [success, success]
       \<and> lastAlertTimeRef s5 = 1700000000900)"
  by (simp add: run_defs)


section \<open>The market insight on demand\<close>

lemma length_remove_nth: "k < length xs \<Longrightarrow> length (remove_nth k xs) < length xs"
  by (simp add: remove_nth_def)

lemma asking_grows:
  assumes "length (asking s) < length (asking (step rt now e s))"
  shows "e = Click_insight \<and> \<not> js_strict_eq (currentPrice s) (Num 0)
    \<and> asking (step rt now e s) = asking s @ [currentPrice s]"
proof (cases e)
  case (Fetch_settles fetched)
  with assms show ?thesis
    by (simp add: effects_fields fetchPrice_resume_def split: if_splits outcome.splits)
next
  case (Send_settles k fetched)
  with assms show ?thesis
    by (simp add: checkThreshold_resume_def Let_def split: if_splits)
next
  case Click_insight
  with assms show ?thesis by (simp add: handleFetchInsight_def split: if_splits)
next
  case (Insight_settles k ai)
  with assms length_remove_nth [of k "asking s"] show ?thesis
    by (simp add: handleFetchInsight_resume_def split: if_splits outcome.splits)
next
  case (Interval_fires i)
  with assms show ?thesis by (simp add: fetchPrice_def split: if_splits)
qed (use assms in \<open>simp_all add: effects_fields\<close>)

text \<open>
  Claim C6. The only step that starts a call of \<open>getMarketInsight\<close> is the click on the
  insight button, and it starts one only when the current price is not 0. When the
  current price is 0, \<open>handleFetchInsight\<close> returns the state as it is: no call is started,
  and \<open>insight\<close> and \<open>loadingInsight\<close> keep their values; so does the click.
\<close>

theorem insight_on_demand:
  "(length (asking s) < length (asking (step rt now e s)) \<longrightarrow>
      e = Click_insight \<and> \<not> js_strict_eq (currentPrice s) (Num 0)
      \<and> asking (step rt now e s) = asking s @ [currentPrice s])
   \<and> (currentPrice s = Num 0 \<longrightarrow>
      handleFetchInsight s = s \<and> step rt now Click_insight s = s
      \<and> asking (handleFetchInsight s) = asking s
      \<and> insight (handleFetchInsight s) = insight s
      \<and> loadingInsight (handleFetchInsight s) = loadingInsight s)"
proof -
  have a: "length (asking s) < length (asking (step rt now e s)) \<longrightarrow>
      e = Click_insight \<and> \<not> js_strict_eq (currentPrice s) (Num 0)
      \<and> asking (step rt now e s) = asking s @ [currentPrice s]"
    using asking_grows [of s rt now e] by blast
  have b: "currentPrice s = Num 0 \<longrightarrow>
      handleFetchInsight s = s \<and> step rt now Click_insight s = s
      \<and> asking (handleFetchInsight s) = asking s
      \<and> insight (handleFetchInsight s) = insight s
      \<and> loadingInsight (handleFetchInsight s) = loadingInsight s"
    by (simp add: handleFetchInsight_def)
  from a b show ?thesis by (rule conjI)
qed

theorem insight_on_demand_witness:
  "currentPrice (mountEffects 1699999999000 (App_initial \<lparr>botToken = lit ''T'', chatId = lit ''1'', enabled = True\<rparr> Map.empty)) = Num 0
   \<and> step \<lparr>toLocaleString = (\<lambda>n. []), toLocaleString_idID = (\<lambda>n. []),
       toLocaleTimeString_hm = (\<lambda>t. []), Date_toLocaleString = (\<lambda>t. []),
       toString = (\<lambda>t. [])\<rparr> 1700000000000 Click_insight (mountEffects 1699999999000 (App_initial \<lparr>botToken = lit ''T'', chatId = lit ''1'', enabled = True\<rparr> Map.empty)) = (mountEffects 1699999999000 (App_initial \<lparr>botToken = lit ''T'', chatId = lit ''1'', enabled = True\<rparr> Map.empty))
   \<and> length (asking (run \<lparr>toLocaleString = (\<lambda>n. []), toLocaleString_idID = (\<lambda>n. []),
       toLocaleTimeString_hm = (\<lambda>t. []), Date_toLocaleString = (\<lambda>t. []),
       toString = (\<lambda>t. [])\<rparr> [(1700000000000, Click_monitoring), (1700000000400, Fetch_settles (Returns \<lparr>ok = True, json = Idr (Num 93310430.4)\<rparr>))] (mountEffects 1699999999000 (App_initial \<lparr>botToken = lit ''T'', chatId = lit ''1'', enabled = True\<rparr> Map.empty))))
      < length (asking (step \<lparr>toLocaleString = (\<lambda>n. []), toLocaleString_idID = (\<lambda>n. []),
       toLocaleTimeString_hm = (\<lambda>t. []), Date_toLocaleString = (\<lambda>t. []),
       toString = (\<lambda>t. [])\<rparr> 1700000000900 Click_insight
          (run \<lparr>toLocaleString = (\<lambda>n. []), toLocaleString_idID = (\<lambda>n. []),
       toLocaleTimeString_hm = (\<lambda>t. []), Date_toLocaleString = (\<lambda>t. []),
       toString = (\<lambda>t. [])\<rparr> [(1700000000000, Click_monitoring), (1700000000400, Fetch_settles (Returns \<lparr>ok = True, json = Idr (Num 93310430.4)\<rparr>))] (mountEffects 1699999999000 (App_initial \<lparr>botToken = lit ''T'', chatId = lit ''1'', enabled = True\<rparr> Map.empty)))))
   \<and> asking (step \<lparr>toLocaleString = (\<lambda>n. []), toLocaleString_idID = (\<lambda>n. []),
       toLocaleTimeString_hm = (\<lambda>t. []), Date_toLocaleString = (\<lambda>t. []),
       toString = (\<lambda>t. [])\<rparr> 1700000000900 Click_insight
          (run \<lparr>toLocaleString = (\<lambda>n. []), toLocaleString_idID = (\<lambda>n. []),
       toLocaleTimeString_hm = (\<lambda>t. []), Date_toLocaleString = (\<lambda>t. []),
       toString = (\<lambda>t. [])\<rparr> [(1700000000000, Click_monitoring), (1700000000400, Fetch_settles (Returns \<lparr>ok = True, json = Idr (Num 93310430.4)\<rparr>))] (mountEffects 1699999999000 (App_initial \<lparr>botToken = lit ''T'', chatId = lit ''1'', enabled = True\<rparr> Map.empty)))) =
      asking (run \<lparr>toLocaleString = (\<lambda>n. []), toLocaleString_idID = (\<lambda>n. []),
       toLocaleTimeString_hm = (\<lambda>t. []), Date_toLocaleString = (\<lambda>t. []),
       toString = (\<lambda>t. [])\<rparr> [(1700000000000, Click_monitoring), (1700000000400, Fetch_settles (Returns \<lparr>ok = True, json = Idr (Num 93310430.4)\<rparr>))] (mountEffects 1699999999000 (App_initial \<lparr>botToken = lit ''T'', chatId = lit ''1'', enabled = True\<rparr> Map.empty)))
      @ [currentPrice (run \<lparr>toLocaleString = (\<lambda>n. []), toLocaleString_idID = (\<lambda>n. []),
       toLocaleTimeString_hm = (\<lambda>t. []), Date_toLocaleString = (\<lambda>t. []),
       toString = (\<lambda>t. [])\<rparr> [(1700000000000, Click_monitoring), (1700000000400, Fetch_settles (Returns \<lparr>ok = True, json = Idr (Num 93310430.4)\<rparr>))] (mountEffects 1699999999000 (App_initial \<lparr>botToken = lit ''T'', chatId = lit ''1'', enabled = True\<rparr> Map.empty)))]"
proof -
  have zero: "currentPrice (mountEffects 1699999999000 (App_initial \<lparr>botToken = lit ''T'', chatId = lit ''1'', enabled = True\<rparr> Map.empty)) = Num 0"
    by (simp add: run_defs)
  have grows: "length (asking (run \<lparr>toLocaleString = (\<lambda>n. []), toLocaleString_idID = (\<lambda>n. []),
       toLocaleTimeString_hm = (\<lambda>t. []), Date_toLocaleString = (\<lambda>t. []),
       toString = (\<lambda>t. [])\<rparr> [(1700000000000, Click_monitoring), (1700000000400, Fetch_settles (Returns \<lparr>ok = True, json = Idr (Num 93310430.4)\<rparr>))] (mountEffects 1699999999000 (App_initial \<lparr>botToken = lit ''T'', chatId = lit ''1'', enabled = True\<rparr> Map.empty))))
      < length (asking (step \<lparr>toLocaleString = (\<lambda>n. []), toLocaleString_idID = (\<lambda>n. []),
       toLocaleTimeString_hm = (\<lambda>t. []), Date_toLocaleString = (\<lambda>t. []),
       toString = (\<lambda>t. [])\<rparr> 1700000000900 Click_insight
          (run \<lparr>toLocaleString = (\<lambda>n. []), toLocaleString_idID = (\<lambda>n. []),
       toLocaleTimeString_hm = (\<lambda>t. []), Date_toLocaleString = (\<lambda>t. []),
       toString = (\<lambda>t. [])\<rparr> [(1700000000000, Click_monitoring), (1700000000400, Fetch_settles (Returns \<lparr>ok = True, json = Idr (Num 93310430.4)\<rparr>))] (mountEffects 1699999999000 (App_initial \<lparr>botToken = lit ''T'', chatId = lit ''1'', enabled = True\<rparr> Map.empty)))))"
    by (simp add: run_defs)
  from zero grows
    insight_on_demand [where rt = "\<lparr>toLocaleString = (\<lambda>n. []), toLocaleString_idID = (\<lambda>n. []),
       toLocaleTimeString_hm = (\<lambda>t. []), Date_toLocaleString = (\<lambda>t. []),
       toString = (\<lambda>t. [])\<rparr>" and now = 1700000000000 and e = Click_insight
      and s = "(mountEffects 1699999999000 (App_initial \<lparr>botToken = lit ''T'', chatId = lit ''1'', enabled = True\<rparr> Map.empty))"]
    insight_on_demand [where rt = "\<lparr>toLocaleString = (\<lambda>n. []), toLocaleString_idID = (\<lambda>n. []),
       toLocaleTimeString_hm = (\<lambda>t. []), Date_toLocaleString = (\<lambda>t. []),
       toString = (\<lambda>t. [])\<rparr>" and now = 1700000000900 and e = Click_insight
      and s = "run \<lparr>toLocaleString = (\<lambda>n. []), toLocaleString_idID = (\<lambda>n. []),
       toLocaleTimeString_hm = (\<lambda>t. []), Date_toLocaleString = (\<lambda>t. []),
       toString = (\<lambda>t. [])\<rparr> [(1700000000000, Click_monitoring), (1700000000400, Fetch_settles (Returns \<lparr>ok = True, json = Idr (Num 93310430.4)\<rparr>))] (mountEffects 1699999999000 (App_initial \<lparr>botToken = lit ''T'', chatId = lit ''1'', enabled = True\<rparr> Map.empty))"]
  show ?thesis by blast
qed


section \<open>A failed poll\<close>

lemma fetch_settles_failed:
  assumes "fetchLiveGoldPrice fetched now = Throws" and "fetching s \<noteq> 0"
  shows "step rt now (Fetch_settles fetched) s =
           s\<lparr>loadingPrice := False, fetching := fetching s - 1\<rparr>"
  using assms by (simp add: fetchPrice_resume_def effects_idle)

text \<open>
  Claim C8. \<open>fetchLiveGoldPrice\<close> throws when \<open>fetch\<close> throws and when the response is not
  ok. \<open>fetchPrice\<close> sets \<open>loadingPrice\<close> before it awaits; when \<open>fetchLiveGoldPrice\<close> then
  throws, the continuation resets \<open>loadingPrice\<close> and changes nothing else of the state of
  the component: \<open>currentPrice\<close>, \<open>lastUpdated\<close>, \<open>dataSource\<close> and \<open>priceHistory\<close> are the
  same as before (the count of pending fetches goes back by one).
\<close>

theorem failed_poll_atomic:
  "fetchLiveGoldPrice Throws now = Throws
   \<and> (\<not> ok r \<longrightarrow> fetchLiveGoldPrice (Returns r) now = Throws)
   \<and> fetchPrice s = s\<lparr>loadingPrice := True, fetching := Suc (fetching s)\<rparr>
   \<and> (fetchLiveGoldPrice fetched now = Throws \<longrightarrow>
        step rt now (Fetch_settles fetched) (fetchPrice s) = s\<lparr>loadingPrice := False\<rparr>)
   \<and> (fetchLiveGoldPrice fetched now = Throws \<and> fetching s \<noteq> 0 \<longrightarrow>
        step rt now (Fetch_settles fetched) s =
          s\<lparr>loadingPrice := False, fetching := fetching s - 1\<rparr>
        \<and> currentPrice (step rt now (Fetch_settles fetched) s) = currentPrice s
        \<and> lastUpdated (step rt now (Fetch_settles fetched) s) = lastUpdated s
        \<and> dataSource (step rt now (Fetch_settles fetched) s) = dataSource s
        \<and> priceHistory (step rt now (Fetch_settles fetched) s) = priceHistory s
        \<and> \<not> loadingPrice (step rt now (Fetch_settles fetched) s))"
proof -
  have a: "fetchLiveGoldPrice Throws now = Throws"
    by (simp add: fetchLiveGoldPrice_def)
  have b: "\<not> ok r \<longrightarrow> fetchLiveGoldPrice (Returns r) now = Throws"
    by (simp add: fetchLiveGoldPrice_def)
  have c: "fetchPrice s = s\<lparr>loadingPrice := True, fetching := Suc (fetching s)\<rparr>"
    by (simp add: fetchPrice_def)
  have d: "fetchLiveGoldPrice fetched now = Throws \<longrightarrow>
        step rt now (Fetch_settles fetched) (fetchPrice s) = s\<lparr>loadingPrice := False\<rparr>"
    by (simp add: fetch_settles_failed fetchPrice_def del: step.simps)
  have e: "fetchLiveGoldPrice fetched now = Throws \<and> fetching s \<noteq> 0 \<longrightarrow>
        step rt now (Fetch_settles fetched) s =
          s\<lparr>loadingPrice := False, fetching := fetching s - 1\<rparr>
        \<and> currentPrice (step rt now (Fetch_settles fetched) s) = currentPrice s
        \<and> lastUpdated (step rt now (Fetch_settles fetched) s) = lastUpdated s
        \<and> dataSource (step rt now (Fetch_settles fetched) s) = dataSource s
        \<and> priceHistory (step rt now (Fetch_settles fetched) s) = priceHistory s
        \<and> \<not> loadingPrice (step rt now (Fetch_settles fetched) s)"
    by (simp add: fetch_settles_failed del: step.simps)
  from a b c d e show ?thesis by blast
qed

theorem failed_poll_atomic_witness:
  "\<not> ok \<lparr>ok = False, json = Json_throws\<rparr>
   \<and> fetchLiveGoldPrice (Returns \<lparr>ok = False, json = Json_throws\<rparr>) 1700000000400 = Throws
   \<and> fetching (run \<lparr>toLocaleString = (\<lambda>n. []), toLocaleString_idID = (\<lambda>n. []),
       toLocaleTimeString_hm = (\<lambda>t. []), Date_toLocaleString = (\<lambda>t. []),
       toString = (\<lambda>t. [])\<rparr> [(1700000000000, Click_monitoring)] (mountEffects 1699999999000 (App_initial \<lparr>botToken = lit ''T'', chatId = lit ''1'', enabled = True\<rparr> Map.empty))) \<noteq> 0
   \<and> priceHistory (step \<lparr>toLocaleString = (\<lambda>n. []), toLocaleString_idID = (\<lambda>n. []),
       toLocaleTimeString_hm = (\<lambda>t. []), Date_toLocaleString = (\<lambda>t. []),
       toString = (\<lambda>t. [])\<rparr> 1700000000400 (Fetch_settles (Returns \<lparr>ok = False, json = Json_throws\<rparr>))
        (run \<lparr>toLocaleString = (\<lambda>n. []), toLocaleString_idID = (\<lambda>n. []),
       toLocaleTimeString_hm = (\<lambda>t. []), Date_toLocaleString = (\<lambda>t. []),
       toString = (\<lambda>t. [])\<rparr> [(1700000000000, Click_monitoring)] (mountEffects 1699999999000 (App_initial \<lparr>botToken = lit ''T'', chatId = lit ''1'', enabled = True\<rparr> Map.empty)))) =
      priceHistory (run \<lparr>toLocaleString = (\<lambda>n. []), toLocaleString_idID = (\<lambda>n. []),
       toLocaleTimeString_hm = (\<lambda>t. []), Date_toLocaleString = (\<lambda>t. []),
       toString = (\<lambda>t. [])\<rparr> [(1700000000000, Click_monitoring)] (mountEffects 1699999999000 (App_initial \<lparr>botToken = lit ''T'', chatId = lit ''1'', enabled = True\<rparr> Map.empty)))
   \<and> currentPrice (step \<lparr>toLocaleString = (\<lambda>n. []), toLocaleString_idID = (\<lambda>n. []),
       toLocaleTimeString_hm = (\<lambda>t. []), Date_toLocaleString = (\<lambda>t. []),
       toString = (\<lambda>t. [])\<rparr> 1700000000400 (Fetch_settles (Returns \<lparr>ok = False, json = Json_throws\<rparr>))
        (run \<lparr>toLocaleString = (\<lambda>n. []), toLocaleString_idID = (\<lambda>n. []),
       toLocaleTimeString_hm = (\<lambda>t. []), Date_toLocaleString = (\<lambda>t. []),
       toString = (\<lambda>t. [])\<rparr> [(1700000000000, Click_monitoring)] (mountEffects 1699999999000 (App_initial \<lparr>botToken = lit ''T'', chatId = lit ''1'', enabled = True\<rparr> Map.empty)))) =
      currentPrice (run \<lparr>toLocaleString = (\<lambda>n. []), toLocaleString_idID = (\<lambda>n. []),
       toLocaleTimeString_hm = (\<lambda>t. []), Date_toLocaleString = (\<lambda>t. []),
       toString = (\<lambda>t. [])\<rparr> [(1700000000000, Click_monitoring)] (mountEffects 1699999999000 (App_initial \<lparr>botToken = lit ''T'', chatId = lit ''1'', enabled = True\<rparr> Map.empty)))
   \<and> \<not> loadingPrice (step \<lparr>toLocaleString = (\<lambda>n. []), toLocaleString_idID = (\<lambda>n. []),
       toLocaleTimeString_hm = (\<lambda>t. []), Date_toLocaleString = (\<lambda>t. []),
       toString = (\<lambda>t. [])\<rparr> 1700000000400 (Fetch_settles (Returns \<lparr>ok = False, json = Json_throws\<rparr>))
        (run \<lparr>toLocaleString = (\<lambda>n. []), toLocaleString_idID = (\<lambda>n. []),
       toLocaleTimeString_hm = (\<lambda>t. []), Date_toLocaleString = (\<lambda>t. []),
       toString = (\<lambda>t. [])\<rparr> [(1700000000000, Click_monitoring)] (mountEffects 1699999999000 (App_initial \<lparr>botToken = lit ''T'', chatId = lit ''1'', enabled = True\<rparr> Map.empty))))"
proof -
  have bad: "\<not> ok \<lparr>ok = False, json = Json_throws\<rparr>"
    by simp
  have pending: "fetching (run \<lparr>toLocaleString = (\<lambda>n. []), toLocaleString_idID = (\<lambda>n. []),
       toLocaleTimeString_hm = (\<lambda>t. []), Date_toLocaleString = (\<lambda>t. []),
       toString = (\<lambda>t. [])\<rparr> [(1700000000000, Click_monitoring)] (mountEffects 1699999999000 (App_initial \<lparr>botToken = lit ''T'', chatId = lit ''1'', enabled = True\<rparr> Map.empty))) \<noteq> 0"
    by (simp add: run_defs)
  from bad pending
    failed_poll_atomic [where rt = "\<lparr>toLocaleString = (\<lambda>n. []), toLocaleString_idID = (\<lambda>n. []),
       toLocaleTimeString_hm = (\<lambda>t. []), Date_toLocaleString = (\<lambda>t. []),
       toString = (\<lambda>t. [])\<rparr>" and now = 1700000000400
      and r = "\<lparr>ok = False, json = Json_throws\<rparr>"
      and fetched = "Returns \<lparr>ok = False, json = Json_throws\<rparr>"
      and s = "run \<lparr>toLocaleString = (\<lambda>n. []), toLocaleString_idID = (\<lambda>n. []),
       toLocaleTimeString_hm = (\<lambda>t. []), Date_toLocaleString = (\<lambda>t. []),
       toString = (\<lambda>t. [])\<rparr> [(1700000000000, Click_monitoring)] (mountEffects 1699999999000 (App_initial \<lparr>botToken = lit ''T'', chatId = lit ''1'', enabled = True\<rparr> Map.empty))"]
  show ?thesis by blast
qed


section \<open>The stored settings\<close>

lemma hex4:
  assumes "c < 65536"
  shows "c div 4096 mod 16 * 4096 + c div 256 mod 16 * 256 + c div 16 mod 16 * 16 + c mod 16
    = (c::nat)"
proof -
  define q1 where "q1 = c div 16"
  define q2 where "q2 = q1 div 16"
  define q3 where "q3 = q2 div 16"
  have e1: "c = q1 * 16 + c mod 16" by (simp add: q1_def)
  have e2: "q1 = q2 * 16 + q1 mod 16" by (simp add: q2_def)
  have e3: "q2 = q3 * 16 + q2 mod 16" by (simp add: q3_def)
  have d2: "c div 256 = q2" by (simp add: q2_def q1_def div_mult2_eq)
  have d3: "c div 4096 = q3" by (simp add: q3_def q2_def q1_def div_mult2_eq)
  have "q3 < 16" using assms unfolding d3 [symmetric] by simp
  then have m3: "q3 mod 16 = q3" by simp
  show ?thesis unfolding d2 d3 m3 q1_def [symmetric] using e1 e2 e3 by linarith
qed

lemma hexValue_hexDigit: "d < 16 \<Longrightarrow> hexValue (hexDigit d) = Some d"
  by (simp add: hexValue_def hexDigit_def)

lemma parse_UnicodeEscape:
  assumes "c < 65536"
  shows "parseChars (UnicodeEscape c @ xs) = consUnit c (parseChars xs)"
proof -
  have "parseChars (UnicodeEscape c @ xs) =
          consUnit (c div 4096 mod 16 * 4096 + c div 256 mod 16 * 256 + c div 16 mod 16 * 16
            + c mod 16) (parseChars xs)"
    by (simp add: UnicodeEscape_def hexValue_hexDigit del: mod_less)
  then show ?thesis by (simp only: hex4 [OF assms])
qed

lemma parse_quoteUnit: "parseChars (quoteUnit c @ xs) = consUnit c (parseChars xs)"
proof -
  consider (short) "c \<in> {8, 9, 10, 12, 13, 34, 92}"
    | (esc) "c \<notin> {8, 9, 10, 12, 13, 34, 92}"
        "c < 32 \<or> leadingSurrogate c \<or> trailingSurrogate c"
    | (plain) "c \<notin> {8, 9, 10, 12, 13, 34, 92}"
        "\<not> (c < 32 \<or> leadingSurrogate c \<or> trailingSurrogate c)"
    by blast
  then show ?thesis
  proof cases
    case short
    then show ?thesis by (auto simp: quoteUnit_def unescape_def)
  next
    case esc
    then have "c < 65536" by (auto simp: leadingSurrogate_def trailingSurrogate_def)
    with esc show ?thesis by (simp add: quoteUnit_def parse_UnicodeEscape)
  next
    case plain
    then show ?thesis by (simp add: quoteUnit_def)
  qed
qed

lemma parseChars_plain:
  "c \<noteq> 34 \<Longrightarrow> c \<noteq> 92 \<Longrightarrow> \<not> c < 32 \<Longrightarrow> parseChars (c # cs) = consUnit c (parseChars cs)"
  by simp

lemma parseChars_surrogate:
  assumes "leadingSurrogate c \<or> trailingSurrogate c"
  shows "parseChars (c # cs) = consUnit c (parseChars cs)"
proof -
  from assms have "c \<noteq> 34" "c \<noteq> 92" "\<not> c < 32"
    by (auto simp: leadingSurrogate_def trailingSurrogate_def)
  then show ?thesis by (rule parseChars_plain)
qed

lemma parse_quoteUnits: "parseChars (quoteUnits s @ 34 # xs) = Some (s, xs)"
proof (induction s rule: quoteUnits.induct)
  case 1
  show ?case by simp
next
  case (2 c)
  show ?case by (simp add: parse_quoteUnit consUnit_def)
next
  case (3 c d cs)
  show ?case
  proof (cases "leadingSurrogate c \<and> trailingSurrogate d")
    case True
    with 3 have "parseChars (quoteUnits cs @ 34 # xs) = Some (cs, xs)" by simp
    with True show ?thesis
      by (simp add: parseChars_surrogate consUnit_def del: parseChars.simps)
  next
    case False
    then have eq: "quoteUnits (c # d # cs) = quoteUnit c @ quoteUnits (d # cs)"
      unfolding quoteUnits.simps by (rule if_not_P)
    from False 3 have "parseChars (quoteUnits (d # cs) @ 34 # xs) = Some (d # cs, xs)" by simp
    then show ?thesis
      by (simp add: eq parse_quoteUnit consUnit_def del: parseChars.simps quoteUnits.simps)
  qed
qed

lemma parseString_Quote: "parseString (QuoteJSONString s @ xs) = Some (s, xs)"
  by (simp add: parseString_def QuoteJSONString_def skipWs_def jsonWs_def parse_quoteUnits)

lemma JSON_parse_stringify: "JSON_parse (JSON_stringify c) = Returns c"
proof -
  have k1: "Option.bind (expect 123 (lit ''{\"botToken\":'' @ xs)) (parseKey (lit ''botToken''))
      = Some xs" for xs
    by (simp add: expect_def parseKey_def parseString_def skipWs_def jsonWs_def lit_def
        consUnit_def)
  have k2: "Option.bind (expect 44 (lit '',\"chatId\":'' @ xs)) (parseKey (lit ''chatId''))
      = Some xs" for xs
    by (simp add: expect_def parseKey_def parseString_def skipWs_def jsonWs_def lit_def
        consUnit_def)
  have k3: "Option.bind (expect 44 (lit '',\"enabled\":'' @ xs)) (parseKey (lit ''enabled''))
      = Some xs" for xs
    by (simp add: expect_def parseKey_def parseString_def skipWs_def jsonWs_def lit_def
        consUnit_def)
  have b: "parseBool ((if e then lit ''true'' else lit ''false'') @ xs) = Some (e, xs)" for e xs
    by (simp add: parseBool_def skipWs_def jsonWs_def lit_def)
  have e: "expect 125 (lit ''}'') = Some []"
    by (simp add: expect_def skipWs_def jsonWs_def lit_def)
  show ?thesis
    unfolding JSON_parse_def JSON_stringify_def
    by (simp add: k1 k2 k3 b e parseString_Quote skipWs_def del: append_assoc)
qed

lemma JSON_stringify_nonempty: "JSON_stringify c \<noteq> []"
  by (simp add: JSON_stringify_def lit_def)

lemma persisted_effects_set: "persisted (effects now True old new)"
  by (simp add: persisted_def effect_defs split: option.splits)

lemma persisted_effects_keep: "persisted new \<Longrightarrow> persisted (effects now False old new)"
  by (simp add: persisted_def effect_defs split: option.splits)

lemma persisted_mount: "persisted (mountEffects now s)"
  by (simp add: persisted_def mountEffects_def effect_defs split: option.splits)

lemma persisted_step:
  assumes "persisted s"
  shows "persisted (step rt now e s)"
proof (cases e)
  case (Fetch_settles fetched)
  from assms have "persisted (fetchPrice_resume rt (fetchLiveGoldPrice fetched now) s)"
    by (simp add: persisted_def fetchPrice_resume_def split: outcome.splits)
  with assms Fetch_settles show ?thesis by (simp add: persisted_effects_keep)
next
  case (Send_settles k fetched)
  with assms show ?thesis by (simp add: persisted_def checkThreshold_resume_def Let_def)
next
  case (Insight_settles k ai)
  with assms show ?thesis
    by (simp add: persisted_def handleFetchInsight_resume_def split: outcome.splits)
next
  case Click_monitoring
  from assms have "persisted (s\<lparr>isMonitoring := \<not> isMonitoring s\<rparr>)"
    by (simp add: persisted_def)
  with Click_monitoring show ?thesis by (simp add: persisted_effects_keep)
next
  case (Change_threshold v)
  from assms have "persisted (s\<lparr>threshold := v\<rparr>)" by (simp add: persisted_def)
  with Change_threshold show ?thesis by (simp add: persisted_effects_keep)
next
  case (Interval_fires i)
  with assms show ?thesis by (simp add: persisted_def fetchPrice_def)
next
  case Click_insight
  with assms show ?thesis by (simp add: persisted_def handleFetchInsight_def)
next
  case (Click_tab t)
  with assms show ?thesis by (simp add: persisted_def)
qed (simp_all add: persisted_effects_set)

lemma persisted_run: "persisted s \<Longrightarrow> persisted (run rt es s)"
  by (induction es arbitrary: s) (auto simp: persisted_step simp del: step.simps)

lemma persisted_restart:
  "persisted s \<Longrightarrow> initialTgConfig (localStorage s) = Returns (tgConfig s)"
  by (simp add: persisted_def initialTgConfig_def JSON_parse_stringify JSON_stringify_nonempty)

text \<open>
  Claim C5. In every state \<open>s\<close> the component reaches from its mount, the local storage
  holds under the key 'gold_tg_config' the JSON text of the current configuration, and a
  start of the component on that storage begins with a configuration equal to it. Each of
  the three handlers that change the configuration stores the JSON text of the new one.
  Parsing the JSON text of a configuration gives the configuration back. When nothing is
  stored under the key, the initial configuration has an empty \<open>botToken\<close>, an empty
  \<open>chatId\<close> and \<open>enabled\<close> false.
\<close>

theorem settings_round_trip:
  "(let s = run rt es (mountEffects now0 (App_initial config storage)) in
      localStorage s (lit ''gold_tg_config'') = Some (JSON_stringify (tgConfig s))
      \<and> initialTgConfig (localStorage s) = Returns (tgConfig s))
   \<and> (let s' = step rt now (Change_botToken v) s in
      tgConfig s' = (tgConfig s)\<lparr>botToken := v\<rparr>
      \<and> localStorage s' (lit ''gold_tg_config'') = Some (JSON_stringify (tgConfig s')))
   \<and> (let s' = step rt now (Change_chatId v) s in
      tgConfig s' = (tgConfig s)\<lparr>chatId := v\<rparr>
      \<and> localStorage s' (lit ''gold_tg_config'') = Some (JSON_stringify (tgConfig s')))
   \<and> (let s' = step rt now Click_enabled s in
      tgConfig s' = (tgConfig s)\<lparr>enabled := \<not> enabled (tgConfig s)\<rparr>
      \<and> localStorage s' (lit ''gold_tg_config'') = Some (JSON_stringify (tgConfig s')))
   \<and> JSON_parse (JSON_stringify c) = Returns c
   \<and> (stored (lit ''gold_tg_config'') = None \<longrightarrow>
        initialTgConfig stored = Returns \<lparr>botToken = [], chatId = [], enabled = False\<rparr>)"
proof -
  have inv: "persisted (run rt es (mountEffects now0 (App_initial config storage)))"
    by (rule persisted_run) (rule persisted_mount)
  have a: "let s = run rt es (mountEffects now0 (App_initial config storage)) in
      localStorage s (lit ''gold_tg_config'') = Some (JSON_stringify (tgConfig s))
      \<and> initialTgConfig (localStorage s) = Returns (tgConfig s)"
    using inv persisted_restart [OF inv] by (simp add: Let_def persisted_def)
  have b1: "let s' = step rt now (Change_botToken v) s in
      tgConfig s' = (tgConfig s)\<lparr>botToken := v\<rparr>
      \<and> localStorage s' (lit ''gold_tg_config'') = Some (JSON_stringify (tgConfig s'))"
    using persisted_effects_set [of now s "s\<lparr>tgConfig := (tgConfig s)\<lparr>botToken := v\<rparr>\<rparr>"]
    by (simp add: Let_def persisted_def effects_fields)
  have b2: "let s' = step rt now (Change_chatId v) s in
      tgConfig s' = (tgConfig s)\<lparr>chatId := v\<rparr>
      \<and> localStorage s' (lit ''gold_tg_config'') = Some (JSON_stringify (tgConfig s'))"
    using persisted_effects_set [of now s "s\<lparr>tgConfig := (tgConfig s)\<lparr>chatId := v\<rparr>\<rparr>"]
    by (simp add: Let_def persisted_def effects_fields)
  have b3: "let s' = step rt now Click_enabled s in
      tgConfig s' = (tgConfig s)\<lparr>enabled := \<not> enabled (tgConfig s)\<rparr>
      \<and> localStorage s' (lit ''gold_tg_config'') = Some (JSON_stringify (tgConfig s'))"
    using persisted_effects_set
      [of now s "s\<lparr>tgConfig := (tgConfig s)\<lparr>enabled := \<not> enabled (tgConfig s)\<rparr>\<rparr>"]
    by (simp add: Let_def persisted_def effects_fields)
  have d: "stored (lit ''gold_tg_config'') = None \<longrightarrow>
        initialTgConfig stored = Returns \<lparr>botToken = [], chatId = [], enabled = False\<rparr>"
    by (simp add: initialTgConfig_def)
  from a b1 b2 b3 JSON_parse_stringify [of c] d show ?thesis by blast
qed

theorem settings_round_trip_witness:
  "(Map.empty :: jsstring \<rightharpoonup> jsstring) (lit ''gold_tg_config'') = None
   \<and> initialTgConfig Map.empty = Returns \<lparr>botToken = [], chatId = [], enabled = False\<rparr>
   \<and> initialTgConfig (localStorage (run \<lparr>toLocaleString = (\<lambda>n. []), toLocaleString_idID = (\<lambda>n. []),
       toLocaleTimeString_hm = (\<lambda>t. []), Date_toLocaleString = (\<lambda>t. []),
       toString = (\<lambda>t. [])\<rparr> [(1700000000000, Change_chatId (lit ''42''))] (mountEffects 1699999999000 (App_initial \<lparr>botToken = lit ''T'', chatId = lit ''1'', enabled = True\<rparr> Map.empty)))) =
       Returns (tgConfig (run \<lparr>toLocaleString = (\<lambda>n. []), toLocaleString_idID = (\<lambda>n. []),
       toLocaleTimeString_hm = (\<lambda>t. []), Date_toLocaleString = (\<lambda>t. []),
       toString = (\<lambda>t. [])\<rparr> [(1700000000000, Change_chatId (lit ''42''))] (mountEffects 1699999999000 (App_initial \<lparr>botToken = lit ''T'', chatId = lit ''1'', enabled = True\<rparr> Map.empty))))
   \<and> JSON_parse (JSON_stringify \<lparr>botToken = lit ''T'', chatId = lit ''1'', enabled = True\<rparr>) = Returns \<lparr>botToken = lit ''T'', chatId = lit ''1'', enabled = True\<rparr>"
proof -
  have none: "(Map.empty :: jsstring \<rightharpoonup> jsstring) (lit ''gold_tg_config'') = None"
    by simp
  from none
    settings_round_trip [where rt = "\<lparr>toLocaleString = (\<lambda>n. []), toLocaleString_idID = (\<lambda>n. []),
       toLocaleTimeString_hm = (\<lambda>t. []), Date_toLocaleString = (\<lambda>t. []),
       toString = (\<lambda>t. [])\<rparr>" and es = "[(1700000000000, Change_chatId (lit ''42''))]"
      and ?now0.0 = 1699999999000 and config = "\<lparr>botToken = lit ''T'', chatId = lit ''1'', enabled = True\<rparr>" and storage = Map.empty
      and stored = Map.empty and c = "\<lparr>botToken = lit ''T'', chatId = lit ''1'', enabled = True\<rparr>", unfolded Let_def]
  show ?thesis by blast
qed


end
